theory Spec2Isabelle
  imports Complex_Main
begin

section \<open>The admin dashboard of lumina-flow-saas\<close>

text \<open>
  A shallow embedding of \<^verbatim>\<open>src/pages/AdminDashboard.tsx\<close>. The React component keeps
  its state in \<^verbatim>\<open>useState\<close> cells and runs asynchronous handlers against a Supabase
  backend. Here the cells, the browser's local storage, the router, the toast queue, the
  console and the log of backend requests are the fields of one record, and every handler
  is a function from that record to the updated record. What the outside world answers
  (the clock, the confirmation dialog, the outcome of each awaited backend request) is an
  argument of the handler. A handler runs from its first line to its last without another
  handler in between. The second effect of the component, which subscribes to change
  notifications and calls \<^verbatim>\<open>fetchUsers\<close> or \<^verbatim>\<open>fetchBlogs\<close> on each of them, and the markup
  are not part of the model.

  JavaScript strings are modelled as \<^typ>\<open>string\<close>, one \<^typ>\<open>char\<close> for one UTF-16 code unit,
  so only code units below 256 occur.
\<close>

subsection \<open>Data\<close>

text \<open>
  \<^verbatim>\<open>interface User\<close>. The field \<^verbatim>\<open>id\<close> is named \<open>user_id\<close> (\<open>id\<close> is the identity function
  of HOL). \<^verbatim>\<open>subscription_end\<close> is a nullable column: \<open>None\<close> is \<^verbatim>\<open>null\<close>.
\<close>

record User =
  user_id :: string
  email :: string
  full_name :: string
  subscription_tier :: string
  subscription_start :: string
  subscription_end :: "string option"
  document_count :: int
  created_at :: string

text \<open>
  \<^verbatim>\<open>interface Blog\<close>, with \<open>blog_id\<close> for \<^verbatim>\<open>id\<close> and \<open>blog_created_at\<close> for \<^verbatim>\<open>created_at\<close>.
  \<^verbatim>\<open>excerpt\<close> is a nullable column.
\<close>

record Blog =
  blog_id :: string
  title :: string
  content :: string
  excerpt :: "string option"
  published :: bool
  blog_created_at :: string

text \<open>The drafts of the two create dialogs (\<^verbatim>\<open>newBlog\<close>, \<^verbatim>\<open>newUser\<close>).\<close>

record NewBlog =
  nb_title :: string
  nb_content :: string
  nb_excerpt :: string
  nb_published :: bool

record NewUser =
  nu_email :: string
  nu_password :: string
  nu_full_name :: string
  nu_subscription_tier :: string

text \<open>The object literals handed to the backend.\<close>

record ProfilePatch =
  p_full_name :: string
  p_subscription_tier :: string
  p_subscription_end :: "string option"

record BlogData =
  d_title :: string
  d_content :: string
  d_excerpt :: string
  d_published :: bool

text \<open>
  Every request the component sends, in the order of the source. \<open>BlogsInsert\<close> always
  carries \<^verbatim>\<open>author_id: null\<close>.
\<close>

datatype backend_call =
    ProfilesSelect
  | BlogsSelect
  | AuthSignUp string string string
  | ProfilesSetPremium string string
  | ProfilesUpdate string ProfilePatch
  | ProfilesDelete string
  | AuthAdminDeleteUser string
  | AuthGetUser
  | BlogsInsert BlogData
  | BlogsUpdate string BlogData
  | BlogsDelete string

text \<open>
  What an awaited Supabase request can do: resolve to \<^verbatim>\<open>{ data, error: null }\<close>, resolve
  to \<^verbatim>\<open>{ error }\<close> with a message, or reject (throw).
\<close>

datatype 'a response = Ok 'a | Err string | Throw

datatype toast = ToastError string | ToastSuccess string

text \<open>A console entry keeps the level and the first argument of the call.\<close>

datatype console_entry = ConsoleLog string | ConsoleWarn string | ConsoleError string

datatype js_error = RangeError | TypeError | SyntaxError

text \<open>Callbacks handed to \<^verbatim>\<open>setTimeout\<close>, with their delay in milliseconds.\<close>

datatype timer_task = SetPremiumLater string string | FetchUsersLater


subsection \<open>JavaScript operations on strings and dates\<close>

text \<open>\<^verbatim>\<open>a || b\<close> on a nullable string: \<^verbatim>\<open>null\<close> and the empty string are falsy.\<close>

definition truthy :: "string option \<Rightarrow> bool" where
  "truthy v = (case v of None \<Rightarrow> False | Some x \<Rightarrow> x \<noteq> [])"

definition js_or :: "string option \<Rightarrow> string \<Rightarrow> string" where
  "js_or v d = (case v of None \<Rightarrow> d | Some x \<Rightarrow> if x = [] then d else x)"

text \<open>
  \<^verbatim>\<open>String.prototype.trim\<close> removes WhiteSpace and LineTerminator code units from both
  ends; below 256 these are TAB, LF, VT, FF, CR, SPACE and NO-BREAK SPACE.
\<close>

definition isWhiteSpace :: "char \<Rightarrow> bool" where
  "isWhiteSpace c \<longleftrightarrow>
     c \<in> set [CHR 0x09, CHR 0x0A, CHR 0x0B, CHR 0x0C, CHR 0x0D, CHR 0x20, CHR 0xA0]"

definition trim :: "string \<Rightarrow> string" where
  "trim x = rev (dropWhile isWhiteSpace (rev (dropWhile isWhiteSpace x)))"

text \<open>
  \<^verbatim>\<open>x.substring(a, b)\<close> for non-negative integers: the arguments are swapped when
  \<open>a > b\<close> and clamped to the length.
\<close>

definition substring :: "string \<Rightarrow> nat \<Rightarrow> nat \<Rightarrow> string" where
  "substring x a b = drop (min a b) (take (max a b) x)"

text \<open>
  \<^verbatim>\<open>new Date(t).toISOString()\<close> for an integral time value \<open>t\<close> in milliseconds since the
  epoch. A time value beyond \<open>8.64e15\<close> in magnitude makes an invalid date, on which
  \<^verbatim>\<open>toISOString\<close> throws a \<^verbatim>\<open>RangeError\<close> (\<open>None\<close>). The calendar date is computed from
  the day number in the proleptic Gregorian calendar, by 400-year eras starting on the
  first of March.
\<close>

definition digit :: "nat \<Rightarrow> char" where
  "digit n = ''0123456789'' ! (n mod 10)"

definition digits2 :: "nat \<Rightarrow> string" where
  "digits2 n = [digit (n div 10), digit n]"

definition digits3 :: "nat \<Rightarrow> string" where
  "digits3 n = digit (n div 100) # digits2 n"

definition digits4 :: "nat \<Rightarrow> string" where
  "digits4 n = digit (n div 1000) # digits3 n"

definition digits6 :: "nat \<Rightarrow> string" where
  "digits6 n = digit (n div 100000) # digit (n div 10000) # digits4 n"

definition yearOfEra :: "int \<Rightarrow> int" where
  "yearOfEra doe = (doe - doe div 1460 + doe div 36524 - doe div 146096) div 365"

definition dayOfYear :: "int \<Rightarrow> int \<Rightarrow> int" where
  "dayOfYear doe yoe = doe - (365 * yoe + yoe div 4 - yoe div 100)"

definition monthIndex :: "int \<Rightarrow> int" where
  "monthIndex doy = (5 * doy + 2) div 153"

definition monthNumber :: "int \<Rightarrow> int" where
  "monthNumber mp = (if mp < 10 then mp + 3 else mp - 9)"

definition dayOfMonth :: "int \<Rightarrow> int \<Rightarrow> int" where
  "dayOfMonth doy mp = doy - (153 * mp + 2) div 5 + 1"

definition yearNumber :: "int \<Rightarrow> int \<Rightarrow> int \<Rightarrow> int" where
  "yearNumber era yoe m = yoe + era * 400 + (if m \<le> 2 then 1 else 0)"

definition civilOfYear :: "int \<Rightarrow> int \<Rightarrow> int \<Rightarrow> int \<times> nat \<times> nat" where
  "civilOfYear era yoe doy =
     (yearNumber era yoe (monthNumber (monthIndex doy)),
      nat (monthNumber (monthIndex doy)),
      nat (dayOfMonth doy (monthIndex doy)))"

definition civilOfEra :: "int \<Rightarrow> int \<Rightarrow> int \<times> nat \<times> nat" where
  "civilOfEra era doe = civilOfYear era (yearOfEra doe) (dayOfYear doe (yearOfEra doe))"

definition civil :: "int \<Rightarrow> int \<times> nat \<times> nat" where
  "civil days = civilOfEra ((days + 719468) div 146097) ((days + 719468) mod 146097)"

definition yearString :: "int \<Rightarrow> string" where
  "yearString y =
     (if 0 \<le> y \<and> y \<le> 9999 then digits4 (nat y)
      else (if y < 0 then ''-'' else ''+'') @ digits6 (nat \<bar>y\<bar>))"

definition dateString :: "int \<times> nat \<times> nat \<Rightarrow> string" where
  "dateString ymd =
     (case ymd of (y, m, d) \<Rightarrow> yearString y @ ''-'' @ digits2 m @ ''-'' @ digits2 d)"

definition timeString :: "nat \<Rightarrow> string" where
  "timeString ms =
     digits2 (ms div 3600000) @ '':'' @ digits2 (ms div 60000 mod 60) @ '':''
     @ digits2 (ms div 1000 mod 60) @ ''.'' @ digits3 (ms mod 1000)"

definition toISOString :: "int \<Rightarrow> string option" where
  "toISOString t =
     (if \<bar>t\<bar> > 8640000000000000 then None
      else Some (dateString (civil (t div 86400000)) @ ''T''
                 @ timeString (nat (t mod 86400000)) @ ''Z''))"


subsection \<open>The component state and its surroundings\<close>

text \<open>
  A value as \<^verbatim>\<open>JSON.parse\<close> returns it. A number is kept exactly, as mantissa and decimal
  exponent; a string is a list of UTF-16 code units; an object lists its members in the
  order of the text.
\<close>

datatype json =
    JNull
  | JBool bool
  | JNumber int int
  | JString "nat list"
  | JArray "json list"
  | JObject "(nat list \<times> json) list"

text \<open>
  The \<^verbatim>\<open>useState\<close> cells of \<^verbatim>\<open>AdminDashboard\<close> under their own names, followed by what
  the component acts on: the \<^verbatim>\<open>adminSession\<close> key of local storage, the routes passed to
  \<^verbatim>\<open>navigate\<close>, the toasts shown, the console, the requests sent to Supabase and the
  pending timers.
\<close>

record Dashboard =
  adminSession :: "json option"
  users :: "User list"
  blogs :: "Blog list"
  editingBlog :: "Blog option"
  editingUser :: "User option"
  isCreateBlogOpen :: bool
  isCreateUserOpen :: bool
  newBlog :: NewBlog
  newUser :: NewUser
  loading :: bool
  localStorage :: "string option"
  navigated :: "string list"
  toasts :: "toast list"
  console :: "console_entry list"
  calls :: "backend_call list"
  timers :: "(timer_task \<times> nat) list"

text \<open>The statements of a handler body run in order.\<close>

definition seq :: "('s \<Rightarrow> 's) list \<Rightarrow> 's \<Rightarrow> 's" where
  "seq stmts s = fold (\<lambda>stmt. stmt) stmts s"

definition console_log :: "string \<Rightarrow> Dashboard \<Rightarrow> Dashboard" where
  "console_log m s = s\<lparr>console := console s @ [ConsoleLog m]\<rparr>"

definition console_warn :: "string \<Rightarrow> Dashboard \<Rightarrow> Dashboard" where
  "console_warn m s = s\<lparr>console := console s @ [ConsoleWarn m]\<rparr>"

definition console_error :: "string \<Rightarrow> Dashboard \<Rightarrow> Dashboard" where
  "console_error m s = s\<lparr>console := console s @ [ConsoleError m]\<rparr>"

definition toast_error :: "string \<Rightarrow> Dashboard \<Rightarrow> Dashboard" where
  "toast_error m s = s\<lparr>toasts := toasts s @ [ToastError m]\<rparr>"

definition toast_success :: "string \<Rightarrow> Dashboard \<Rightarrow> Dashboard" where
  "toast_success m s = s\<lparr>toasts := toasts s @ [ToastSuccess m]\<rparr>"

definition supabase :: "backend_call \<Rightarrow> Dashboard \<Rightarrow> Dashboard" where
  "supabase c s = s\<lparr>calls := calls s @ [c]\<rparr>"

definition navigate :: "string \<Rightarrow> Dashboard \<Rightarrow> Dashboard" where
  "navigate route s = s\<lparr>navigated := navigated s @ [route]\<rparr>"

definition removeItem :: "Dashboard \<Rightarrow> Dashboard" where
  "removeItem s = s\<lparr>localStorage := None\<rparr>"

definition setTimeout :: "timer_task \<Rightarrow> nat \<Rightarrow> Dashboard \<Rightarrow> Dashboard" where
  "setTimeout task delay s = s\<lparr>timers := timers s @ [(task, delay)]\<rparr>"

definition setAdminSession :: "json option \<Rightarrow> Dashboard \<Rightarrow> Dashboard" where
  "setAdminSession v s = s\<lparr>adminSession := v\<rparr>"

definition setUsers :: "User list \<Rightarrow> Dashboard \<Rightarrow> Dashboard" where
  "setUsers v s = s\<lparr>users := v\<rparr>"

definition setBlogs :: "Blog list \<Rightarrow> Dashboard \<Rightarrow> Dashboard" where
  "setBlogs v s = s\<lparr>blogs := v\<rparr>"

definition setEditingBlog :: "Blog option \<Rightarrow> Dashboard \<Rightarrow> Dashboard" where
  "setEditingBlog v s = s\<lparr>editingBlog := v\<rparr>"

definition setEditingUser :: "User option \<Rightarrow> Dashboard \<Rightarrow> Dashboard" where
  "setEditingUser v s = s\<lparr>editingUser := v\<rparr>"

definition setIsCreateBlogOpen :: "bool \<Rightarrow> Dashboard \<Rightarrow> Dashboard" where
  "setIsCreateBlogOpen v s = s\<lparr>isCreateBlogOpen := v\<rparr>"

definition setIsCreateUserOpen :: "bool \<Rightarrow> Dashboard \<Rightarrow> Dashboard" where
  "setIsCreateUserOpen v s = s\<lparr>isCreateUserOpen := v\<rparr>"

definition setNewBlog :: "NewBlog \<Rightarrow> Dashboard \<Rightarrow> Dashboard" where
  "setNewBlog v s = s\<lparr>newBlog := v\<rparr>"

definition setNewUser :: "NewUser \<Rightarrow> Dashboard \<Rightarrow> Dashboard" where
  "setNewUser v s = s\<lparr>newUser := v\<rparr>"

definition setLoading :: "bool \<Rightarrow> Dashboard \<Rightarrow> Dashboard" where
  "setLoading v s = s\<lparr>loading := v\<rparr>"

subsection \<open>Fetching the two collections\<close>

text \<open>
  \<^verbatim>\<open>fetchUsers\<close> and \<^verbatim>\<open>fetchBlogs\<close>: the part that runs up to the \<^verbatim>\<open>await\<close>, and the part
  that runs on the answer. \<open>Ok None\<close> is an answer whose \<^verbatim>\<open>data\<close> is \<^verbatim>\<open>null\<close>.
\<close>

definition fetchUsers_request :: "Dashboard \<Rightarrow> Dashboard" where
  "fetchUsers_request = seq [console_log ''Fetching users...'', supabase ProfilesSelect]"

definition fetchUsers_answer :: "User list option response \<Rightarrow> Dashboard \<Rightarrow> Dashboard" where
  "fetchUsers_answer r =
     (case r of
        Err message \<Rightarrow>
          seq [console_error ''Error fetching users:'',
               toast_error (''Failed to fetch users: '' @ message)]
      | Ok data \<Rightarrow>
          seq [console_log ''Fetched users:'',
               setUsers (case data of None \<Rightarrow> [] | Some rows \<Rightarrow> rows)]
      | Throw \<Rightarrow>
          seq [console_error ''Error fetching users:'',
               toast_error ''Failed to fetch users''])"

definition fetchUsers :: "User list option response \<Rightarrow> Dashboard \<Rightarrow> Dashboard" where
  "fetchUsers r = seq [fetchUsers_request, fetchUsers_answer r]"

definition fetchBlogs_request :: "Dashboard \<Rightarrow> Dashboard" where
  "fetchBlogs_request = seq [console_log ''Fetching blogs...'', supabase BlogsSelect]"

definition fetchBlogs_answer :: "Blog list option response \<Rightarrow> Dashboard \<Rightarrow> Dashboard" where
  "fetchBlogs_answer r =
     (case r of
        Err message \<Rightarrow>
          seq [console_error ''Error fetching blogs:'',
               toast_error (''Failed to fetch blogs: '' @ message)]
      | Ok data \<Rightarrow>
          seq [console_log ''Fetched blogs:'',
               setBlogs (case data of None \<Rightarrow> [] | Some rows \<Rightarrow> rows)]
      | Throw \<Rightarrow>
          seq [console_error ''Error fetching blogs:'',
               toast_error ''Failed to fetch blogs''])"

definition fetchBlogs :: "Blog list option response \<Rightarrow> Dashboard \<Rightarrow> Dashboard" where
  "fetchBlogs r = seq [fetchBlogs_request, fetchBlogs_answer r]"

text \<open>
  \<^verbatim>\<open>fetchData\<close>: both requests leave before either answer arrives; \<open>usersFirst\<close> tells
  which answer arrives first. Neither fetch rejects, so the \<^verbatim>\<open>catch\<close> of \<^verbatim>\<open>fetchData\<close> is
  never entered.
\<close>

definition fetchData ::
  "bool \<Rightarrow> User list option response \<Rightarrow> Blog list option response \<Rightarrow> Dashboard \<Rightarrow> Dashboard"
where
  "fetchData usersFirst ru rb =
     seq ([setLoading True, fetchUsers_request, fetchBlogs_request]
          @ (if usersFirst then [fetchUsers_answer ru, fetchBlogs_answer rb]
             else [fetchBlogs_answer rb, fetchUsers_answer ru])
          @ [setLoading False])"

subsection \<open>Accounts\<close>

text \<open>
  \<^verbatim>\<open>createUser\<close>. \<open>now\<close> is \<^verbatim>\<open>Date.now()\<close>; the answer of \<^verbatim>\<open>auth.signUp\<close> carries the id of
  \<^verbatim>\<open>authData.user\<close>, or \<open>None\<close> when that is \<^verbatim>\<open>null\<close>. \<open>createUser_finish\<close> is the tail of
  the \<^verbatim>\<open>try\<close> block, from \<^verbatim>\<open>setNewUser\<close> on.
\<close>

definition createUser_finish :: "(Dashboard \<Rightarrow> Dashboard) list" where
  "createUser_finish =
     [setNewUser \<lparr>nu_email = [], nu_password = [], nu_full_name = [],
                  nu_subscription_tier = ''free''\<rparr>,
      setIsCreateUserOpen False,
      toast_success ''User created successfully! They will receive a confirmation email.'',
      setTimeout FetchUsersLater 1500]"

definition createUser :: "int \<Rightarrow> string option response \<Rightarrow> Dashboard \<Rightarrow> Dashboard" where
  "createUser now r s =
     (if trim (nu_email (newUser s)) = [] \<or> trim (nu_password (newUser s)) = [] then
        toast_error ''Please fill in email and password'' s
      else
        seq ([console_log ''Creating user:'',
              supabase (AuthSignUp (nu_email (newUser s)) (nu_password (newUser s))
                          (nu_full_name (newUser s)))]
             @ (case r of
                  Err message \<Rightarrow>
                    [console_error ''Auth error:'',
                     toast_error (''Failed to create user: '' @ message)]
                | Throw \<Rightarrow>
                    [console_error ''Error creating user:'',
                     toast_error ''Failed to create user'']
                | Ok user \<Rightarrow>
                    console_log ''User created in auth:''
                    # (case user of
                         None \<Rightarrow> createUser_finish
                       | Some uid \<Rightarrow>
                           if nu_subscription_tier (newUser s) = ''premium'' then
                             (case toISOString (now + 30 * 24 * 60 * 60 * 1000) of
                                None \<Rightarrow>
                                  [console_error ''Error creating user:'',
                                   toast_error ''Failed to create user'']
                              | Some subEnd \<Rightarrow>
                                  setTimeout (SetPremiumLater uid subEnd) 1000
                                  # createUser_finish)
                           else createUser_finish))) s)"

text \<open>
  The callback of the first timer of \<^verbatim>\<open>createUser\<close>. It has no \<^verbatim>\<open>catch\<close>: a rejected
  request ends it.
\<close>

definition setPremiumLater :: "unit response \<Rightarrow> string \<Rightarrow> string \<Rightarrow> Dashboard \<Rightarrow> Dashboard" where
  "setPremiumLater r uid subEnd =
     seq (supabase (ProfilesSetPremium uid subEnd)
          # (case r of
               Err message \<Rightarrow>
                 [console_error ''Profile update error:'',
                  toast_error (''User created but subscription update failed: '' @ message)]
             | Ok _ \<Rightarrow> []
             | Throw \<Rightarrow> []))"

text \<open>
  \<^verbatim>\<open>updateUser\<close>. The constant \<^verbatim>\<open>subscriptionEnd\<close> is computed first; the date is only
  built when the tier is premium and the draft has no end date.
\<close>

definition subscriptionEnd :: "int \<Rightarrow> User \<Rightarrow> js_error + string option" where
  "subscriptionEnd now e =
     (if subscription_tier e = ''premium'' then
        (if truthy (subscription_end e) then Inr (subscription_end e)
         else (case toISOString (now + 30 * 24 * 60 * 60 * 1000) of
                 None \<Rightarrow> Inl RangeError
               | Some stamp \<Rightarrow> Inr (Some stamp)))
      else Inr None)"

definition updateUser :: "int \<Rightarrow> unit response \<Rightarrow> Dashboard \<Rightarrow> Dashboard" where
  "updateUser now r s =
     (case editingUser s of
        None \<Rightarrow> s
      | Some e \<Rightarrow>
          (case subscriptionEnd now e of
             Inl err \<Rightarrow>
               seq [console_log ''Updating user:'',
                    console_error ''Error updating user:'',
                    toast_error ''Failed to update user''] s
           | Inr subEnd \<Rightarrow>
               seq ([console_log ''Updating user:'',
                     supabase (ProfilesUpdate (user_id e)
                                 \<lparr>p_full_name = full_name e,
                                  p_subscription_tier = subscription_tier e,
                                  p_subscription_end = subEnd\<rparr>)]
                    @ (case r of
                         Err message \<Rightarrow>
                           [console_error ''Update error:'',
                            toast_error (''Failed to update user: '' @ message)]
                       | Throw \<Rightarrow>
                           [console_error ''Error updating user:'',
                            toast_error ''Failed to update user'']
                       | Ok _ \<Rightarrow>
                           [console_log ''User updated successfully'',
                            setUsers (map (\<lambda>user. if user_id user = user_id e
                                                  then e\<lparr>subscription_end := subEnd\<rparr>
                                                  else user) (users s)),
                            setEditingUser None,
                            toast_success ''User updated successfully''])) s))"

text \<open>
  \<^verbatim>\<open>deleteUser\<close>. \<open>confirmed\<close> is the answer of the confirmation dialog. The value that
  \<^verbatim>\<open>auth.admin.deleteUser\<close> resolves to is dropped; only a rejection reaches the inner
  \<^verbatim>\<open>catch\<close>.
\<close>

definition deleteUser ::
  "bool \<Rightarrow> unit response \<Rightarrow> unit response \<Rightarrow> string \<Rightarrow> Dashboard \<Rightarrow> Dashboard"
where
  "deleteUser confirmed rProfile rAuth uid s =
     (if \<not> confirmed then s
      else
        seq ([console_log ''Deleting user:'', supabase (ProfilesDelete uid)]
             @ (case rProfile of
                  Err message \<Rightarrow>
                    [console_error ''Profile delete error:'',
                     toast_error (''Failed to delete user profile: '' @ message)]
                | Throw \<Rightarrow>
                    [console_error ''Error deleting user:'',
                     toast_error ''Failed to delete user'']
                | Ok _ \<Rightarrow>
                    [supabase (AuthAdminDeleteUser uid)]
                    @ (case rAuth of
                         Throw \<Rightarrow> [console_warn ''Auth delete failed, but profile was deleted:'']
                       | Err message \<Rightarrow> []
                       | Ok _ \<Rightarrow> [])
                    @ [console_log ''User deleted successfully'',
                       setUsers (filter (\<lambda>user. user_id user \<noteq> uid) (users s)),
                       toast_success ''User deleted successfully''])) s)"

subsection \<open>Posts\<close>

text \<open>
  \<^verbatim>\<open>createBlog\<close>. \<^verbatim>\<open>auth.getUser\<close> resolves to an object with a \<^verbatim>\<open>data.user\<close> member also
  when it reports an error, so only its rejection leaves the \<^verbatim>\<open>try\<close>. The last statement
  starts \<^verbatim>\<open>fetchBlogs\<close>, whose answer is \<open>rFetch\<close>.
\<close>

definition blogData :: "NewBlog \<Rightarrow> BlogData" where
  "blogData nb =
     \<lparr>d_title = nb_title nb,
      d_content = nb_content nb,
      d_excerpt = js_or (Some (nb_excerpt nb)) (substring (nb_content nb) 0 150 @ ''...''),
      d_published = nb_published nb\<rparr>"

definition createBlog ::
  "unit response \<Rightarrow> unit response \<Rightarrow> Blog list option response \<Rightarrow> Dashboard \<Rightarrow> Dashboard"
where
  "createBlog rGetUser rInsert rFetch s =
     (if trim (nb_title (newBlog s)) = [] \<or> trim (nb_content (newBlog s)) = [] then
        toast_error ''Please fill in title and content'' s
      else
        seq ([console_log ''Creating blog:'', supabase AuthGetUser]
             @ (case rGetUser of
                  Throw \<Rightarrow>
                    [console_error ''Error creating blog:'',
                     toast_error ''Failed to create blog'']
                | _ \<Rightarrow>
                    [console_log ''Current user for blog creation:'',
                     console_log ''Blog data to insert:'',
                     supabase (BlogsInsert (blogData (newBlog s)))]
                    @ (case rInsert of
                         Err message \<Rightarrow>
                           [console_error ''Blog create error:'',
                            toast_error (''Failed to create blog: '' @ message)]
                       | Throw \<Rightarrow>
                           [console_error ''Error creating blog:'',
                            toast_error ''Failed to create blog'']
                       | Ok _ \<Rightarrow>
                           [console_log ''Blog created successfully:'',
                            setNewBlog \<lparr>nb_title = [], nb_content = [], nb_excerpt = [],
                                         nb_published = False\<rparr>,
                            setIsCreateBlogOpen False,
                            toast_success ''Blog created successfully'',
                            fetchBlogs rFetch]))) s)"

text \<open>
  \<^verbatim>\<open>updateBlog\<close>. With no post being edited, \<^verbatim>\<open>editingBlog?.title.trim()\<close> is
  \<^verbatim>\<open>undefined\<close> and the validation fails. The answer carries the row that \<^verbatim>\<open>.single()\<close>
  returns.
\<close>

definition blogUpdate :: "Blog \<Rightarrow> BlogData" where
  "blogUpdate b =
     \<lparr>d_title = title b,
      d_content = content b,
      d_excerpt = js_or (excerpt b) (substring (content b) 0 150 @ ''...''),
      d_published = published b\<rparr>"

definition updateBlog :: "Blog response \<Rightarrow> Dashboard \<Rightarrow> Dashboard" where
  "updateBlog r s =
     (case editingBlog s of
        None \<Rightarrow> toast_error ''Please fill in title and content'' s
      | Some b \<Rightarrow>
          if trim (title b) = [] \<or> trim (content b) = [] then
            toast_error ''Please fill in title and content'' s
          else
            seq ([console_log ''Updating blog:'',
                  supabase (BlogsUpdate (blog_id b) (blogUpdate b))]
                 @ (case r of
                      Err message \<Rightarrow>
                        [console_error ''Blog update error:'',
                         toast_error (''Failed to update blog: '' @ message)]
                    | Throw \<Rightarrow>
                        [console_error ''Error updating blog:'',
                         toast_error ''Failed to update blog'']
                    | Ok data \<Rightarrow>
                        [console_log ''Blog updated successfully:'',
                         setBlogs (map (\<lambda>blog. if blog_id blog = blog_id b then data else blog)
                                     (blogs s)),
                         setEditingBlog None,
                         toast_success ''Blog updated successfully''])) s)"

definition deleteBlog :: "bool \<Rightarrow> unit response \<Rightarrow> string \<Rightarrow> Dashboard \<Rightarrow> Dashboard" where
  "deleteBlog confirmed r bid s =
     (if \<not> confirmed then s
      else
        seq ([console_log ''Deleting blog:'', supabase (BlogsDelete bid)]
             @ (case r of
                  Err message \<Rightarrow>
                    [console_error ''Blog delete error:'',
                     toast_error (''Failed to delete blog: '' @ message)]
                | Throw \<Rightarrow>
                    [console_error ''Error deleting blog:'',
                     toast_error ''Failed to delete blog'']
                | Ok _ \<Rightarrow>
                    [console_log ''Blog deleted successfully'',
                     setBlogs (filter (\<lambda>blog. blog_id blog \<noteq> bid) (blogs s)),
                     toast_success ''Blog deleted successfully''])) s)"

definition handleSignOut :: "Dashboard \<Rightarrow> Dashboard" where
  "handleSignOut = seq [removeItem, navigate ''/admin'']"

subsection \<open>The statistics shown\<close>

definition totalUsers :: "Dashboard \<Rightarrow> nat" where
  "totalUsers s = length (users s)"

definition premiumUsers :: "Dashboard \<Rightarrow> nat" where
  "premiumUsers s = length (filter (\<lambda>user. subscription_tier user = ''premium'') (users s))"

definition totalRevenue :: "Dashboard \<Rightarrow> nat" where
  "totalRevenue s = premiumUsers s * 9"

text \<open>While \<^verbatim>\<open>loading\<close> holds the component renders the loading screen and no figure.\<close>

definition displayedRevenue :: "Dashboard \<Rightarrow> nat option" where
  "displayedRevenue s = (if loading s then None else Some (totalRevenue s))"

subsection \<open>Parsing the stored session\<close>

text \<open>
  \<^verbatim>\<open>JSON.parse\<close> on a text of code units below 256, in two passes that each read their
  input once from left to right. The first pass cuts the text into tokens: a string with
  its escapes decoded, a maximal run of the characters a number is written with, a
  maximal run of lower-case letters, or a punctuation mark. A run must be a number of the
  JSON grammar, or one of the three literals. The second pass builds the value with a
  stack of the arrays and objects that are still open. A text that is not JSON gives a
  \<^verbatim>\<open>SyntaxError\<close>.
\<close>

datatype token =
    TLeftBrace | TRightBrace | TLeftBracket | TRightBracket | TColon | TComma
  | TString "nat list" | TNumber int int | TTrue | TFalse | TNull

datatype lex_state =
    Between
  | InString "nat list"
  | Escape "nat list"
  | Unicode "nat list" "nat list"
  | InNumber string
  | InWord string

definition isJsonSpace :: "char \<Rightarrow> bool" where
  "isJsonSpace c \<longleftrightarrow> c \<in> set [CHR 0x20, CHR 0x09, CHR 0x0A, CHR 0x0D]"

definition isDigit :: "char \<Rightarrow> bool" where
  "isDigit c \<longleftrightarrow> c \<in> set ''0123456789''"

definition isNumberChar :: "char \<Rightarrow> bool" where
  "isNumberChar c \<longleftrightarrow> isDigit c \<or> c \<in> set ''+-.eE''"

definition isLetter :: "char \<Rightarrow> bool" where
  "isLetter c \<longleftrightarrow> c \<in> set ''abcdefghijklmnopqrstuvwxyz''"

definition punctuation :: "char \<Rightarrow> token option" where
  "punctuation c =
     map_of [(CHR ''{'', TLeftBrace), (CHR ''}'', TRightBrace), (CHR ''['', TLeftBracket),
             (CHR '']'', TRightBracket), (CHR '':'', TColon), (CHR '','', TComma)] c"

definition escapeChar :: "char \<Rightarrow> nat option" where
  "escapeChar c =
     map_of [(CHR 0x22, 0x22), (CHR 0x5C, 0x5C), (CHR ''/'', 0x2F), (CHR ''b'', 0x08),
             (CHR ''f'', 0x0C), (CHR ''n'', 0x0A), (CHR ''r'', 0x0D), (CHR ''t'', 0x09)] c"

definition hexValue :: "char \<Rightarrow> nat option" where
  "hexValue c =
     map_of [(CHR ''0'', 0), (CHR ''1'', 1), (CHR ''2'', 2), (CHR ''3'', 3), (CHR ''4'', 4),
             (CHR ''5'', 5), (CHR ''6'', 6), (CHR ''7'', 7), (CHR ''8'', 8), (CHR ''9'', 9),
             (CHR ''a'', 10), (CHR ''b'', 11), (CHR ''c'', 12), (CHR ''d'', 13), (CHR ''e'', 14),
             (CHR ''f'', 15), (CHR ''A'', 10), (CHR ''B'', 11), (CHR ''C'', 12), (CHR ''D'', 13),
             (CHR ''E'', 14), (CHR ''F'', 15)] c"

definition digitValue :: "char \<Rightarrow> nat" where
  "digitValue c = (case hexValue c of None \<Rightarrow> 0 | Some d \<Rightarrow> d)"

definition decimal :: "string \<Rightarrow> nat" where
  "decimal ds = foldl (\<lambda>n c. 10 * n + digitValue c) 0 ds"

definition wordToken :: "string \<Rightarrow> token option" where
  "wordToken w = map_of [(''true'', TTrue), (''false'', TFalse), (''null'', TNull)] w"

text \<open>
  A number of the JSON grammar: an optional minus sign, an integer part without a
  leading zero, an optional fraction and an optional exponent. Its value is the mantissa
  times ten to the exponent.
\<close>

definition exponentPart :: "string \<Rightarrow> int option" where
  "exponentPart r =
     (case r of
        [] \<Rightarrow> Some 0
      | c # r1 \<Rightarrow>
          if c = CHR ''e'' \<or> c = CHR ''E'' then
            (case r1 of
               [] \<Rightarrow> None
             | g # r2 \<Rightarrow>
                 if g = CHR ''-'' then
                   (if r2 \<noteq> [] \<and> list_all isDigit r2 then Some (- int (decimal r2)) else None)
                 else if g = CHR ''+'' then
                   (if r2 \<noteq> [] \<and> list_all isDigit r2 then Some (int (decimal r2)) else None)
                 else (if list_all isDigit r1 then Some (int (decimal r1)) else None))
          else None)"

definition fractionPart :: "string \<Rightarrow> (string \<times> string) option" where
  "fractionPart r =
     (case r of
        [] \<Rightarrow> Some ([], [])
      | c # r1 \<Rightarrow>
          if c = CHR ''.'' then
            (if takeWhile isDigit r1 = [] then None
             else Some (takeWhile isDigit r1, dropWhile isDigit r1))
          else Some ([], r))"

definition unsignedNumber :: "string \<Rightarrow> (int \<times> int) option" where
  "unsignedNumber n =
     (let ds = takeWhile isDigit n in
      if ds = [] \<or> (hd ds = CHR ''0'' \<and> tl ds \<noteq> []) then None
      else (case fractionPart (dropWhile isDigit n) of
              None \<Rightarrow> None
            | Some (fs, r) \<Rightarrow>
                (case exponentPart r of
                   None \<Rightarrow> None
                 | Some e \<Rightarrow> Some (int (decimal (ds @ fs)), e - int (length fs)))))"

definition numberToken :: "string \<Rightarrow> token option" where
  "numberToken n =
     (case n of
        [] \<Rightarrow> None
      | c # r \<Rightarrow>
          if c = CHR ''-'' then map_option (\<lambda>(m, e). TNumber (- m) e) (unsignedNumber r)
          else map_option (\<lambda>(m, e). TNumber m e) (unsignedNumber n))"

text \<open>The tokenizer: what one more character does in each state.\<close>

definition lex_start :: "token list \<Rightarrow> char \<Rightarrow> (lex_state \<times> token list) option" where
  "lex_start toks c =
     (if isJsonSpace c then Some (Between, toks)
      else if c = CHR 0x22 then Some (InString [], toks)
      else if isNumberChar c then Some (InNumber [c], toks)
      else if isLetter c then Some (InWord [c], toks)
      else map_option (\<lambda>t. (Between, toks @ [t])) (punctuation c))"

definition lex_step :: "lex_state \<Rightarrow> token list \<Rightarrow> char \<Rightarrow> (lex_state \<times> token list) option" where
  "lex_step st toks c =
     (case st of
        Between \<Rightarrow> lex_start toks c
      | InString acc \<Rightarrow>
          if c = CHR 0x22 then Some (Between, toks @ [TString acc])
          else if c = CHR 0x5C then Some (Escape acc, toks)
          else if of_char c < (0x20 :: nat) then None
          else Some (InString (acc @ [of_char c]), toks)
      | Escape acc \<Rightarrow>
          if c = CHR ''u'' then Some (Unicode acc [], toks)
          else map_option (\<lambda>u. (InString (acc @ [u]), toks)) (escapeChar c)
      | Unicode acc hs \<Rightarrow>
          (case hexValue c of
             None \<Rightarrow> None
           | Some h \<Rightarrow>
               if length hs = 3
               then Some (InString (acc @ [foldl (\<lambda>n d. 16 * n + d) 0 (hs @ [h])]), toks)
               else Some (Unicode acc (hs @ [h]), toks))
      | InNumber n \<Rightarrow>
          if isNumberChar c then Some (InNumber (n @ [c]), toks)
          else (case numberToken n of
                  None \<Rightarrow> None
                | Some t \<Rightarrow> lex_start (toks @ [t]) c)
      | InWord w \<Rightarrow>
          if isLetter c then Some (InWord (w @ [c]), toks)
          else (case wordToken w of
                  None \<Rightarrow> None
                | Some t \<Rightarrow> lex_start (toks @ [t]) c))"

definition lex_finish :: "lex_state \<Rightarrow> token list \<Rightarrow> token list option" where
  "lex_finish st toks =
     (case st of
        Between \<Rightarrow> Some toks
      | InNumber n \<Rightarrow> map_option (\<lambda>t. toks @ [t]) (numberToken n)
      | InWord w \<Rightarrow> map_option (\<lambda>t. toks @ [t]) (wordToken w)
      | _ \<Rightarrow> None)"

fun lexer :: "lex_state \<Rightarrow> token list \<Rightarrow> string \<Rightarrow> token list option" where
  "lexer st toks [] = lex_finish st toks"
| "lexer st toks (c # cs) =
     (case lex_step st toks c of
        None \<Rightarrow> None
      | Some (st', toks') \<Rightarrow> lexer st' toks' cs)"

text \<open>The parser: what one more token does.\<close>

datatype frame =
    InArray "json list"
  | InObject "(nat list \<times> json) list"
  | InMember "(nat list \<times> json) list" "nat list"

datatype parse_state =
    ExpectValue | ExpectValueOrClose | ExpectKeyOrClose | ExpectKey | ExpectColon | AfterValue | Finished json

definition deliver :: "json \<Rightarrow> frame list \<Rightarrow> (parse_state \<times> frame list) option" where
  "deliver v stack =
     (case stack of
        [] \<Rightarrow> Some (Finished v, [])
      | InArray vs # rest \<Rightarrow> Some (AfterValue, InArray (vs @ [v]) # rest)
      | InMember ms k # rest \<Rightarrow> Some (AfterValue, InObject (ms @ [(k, v)]) # rest)
      | InObject ms # rest \<Rightarrow> None)"

definition value_step :: "frame list \<Rightarrow> token \<Rightarrow> (parse_state \<times> frame list) option" where
  "value_step stack t =
     (case t of
        TLeftBrace \<Rightarrow> Some (ExpectKeyOrClose, InObject [] # stack)
      | TLeftBracket \<Rightarrow> Some (ExpectValueOrClose, InArray [] # stack)
      | TString x \<Rightarrow> deliver (JString x) stack
      | TNumber m e \<Rightarrow> deliver (JNumber m e) stack
      | TTrue \<Rightarrow> deliver (JBool True) stack
      | TFalse \<Rightarrow> deliver (JBool False) stack
      | TNull \<Rightarrow> deliver JNull stack
      | _ \<Rightarrow> None)"

definition close_step :: "frame list \<Rightarrow> token \<Rightarrow> (parse_state \<times> frame list) option" where
  "close_step stack t =
     (case (stack, t) of
        (InArray vs # rest, TRightBracket) \<Rightarrow> deliver (JArray vs) rest
      | (InObject ms # rest, TRightBrace) \<Rightarrow> deliver (JObject ms) rest
      | _ \<Rightarrow> None)"

definition key_step :: "frame list \<Rightarrow> token \<Rightarrow> (parse_state \<times> frame list) option" where
  "key_step stack t =
     (case (stack, t) of
        (InObject ms # rest, TString k) \<Rightarrow> Some (ExpectColon, InMember ms k # rest)
      | _ \<Rightarrow> None)"

definition parse_step :: "parse_state \<Rightarrow> frame list \<Rightarrow> token \<Rightarrow> (parse_state \<times> frame list) option" where
  "parse_step st stack t =
     (case st of
        ExpectValue \<Rightarrow> value_step stack t
      | ExpectValueOrClose \<Rightarrow> if t = TRightBracket then close_step stack t else value_step stack t
      | ExpectKeyOrClose \<Rightarrow> if t = TRightBrace then close_step stack t else key_step stack t
      | ExpectKey \<Rightarrow> key_step stack t
      | ExpectColon \<Rightarrow> if t = TColon then Some (ExpectValue, stack) else None
      | AfterValue \<Rightarrow>
          if t = TComma then
            (case stack of
               InArray vs # rest \<Rightarrow> Some (ExpectValue, stack)
             | InObject ms # rest \<Rightarrow> Some (ExpectKey, stack)
             | _ \<Rightarrow> None)
          else close_step stack t
      | Finished v \<Rightarrow> None)"

fun parser :: "parse_state \<Rightarrow> frame list \<Rightarrow> token list \<Rightarrow> json option" where
  "parser st stack [] = (case st of Finished v \<Rightarrow> Some v | _ \<Rightarrow> None)"
| "parser st stack (t # ts) =
     (case parse_step st stack t of
        None \<Rightarrow> None
      | Some (st', stack') \<Rightarrow> parser st' stack' ts)"

definition JSON_parse :: "string \<Rightarrow> js_error + json" where
  "JSON_parse text =
     (case lexer Between [] text of
        None \<Rightarrow> Inl SyntaxError
      | Some toks \<Rightarrow>
          (case parser ExpectValue [] toks of
             None \<Rightarrow> Inl SyntaxError
           | Some v \<Rightarrow> Inr v))"

subsection \<open>The session check\<close>

text \<open>
  \<^verbatim>\<open>parsedSession.loginTime\<close>: reading a property of \<^verbatim>\<open>null\<close> throws a \<^verbatim>\<open>TypeError\<close>; in an
  object the last member of that name counts; an object without such a member, an array,
  a string, a number and a boolean give \<^verbatim>\<open>undefined\<close> (\<open>None\<close>).
\<close>

definition loginTime :: "json \<Rightarrow> js_error + json option" where
  "loginTime parsedSession =
     (case parsedSession of
        JNull \<Rightarrow> Inl TypeError
      | JObject members \<Rightarrow> Inr (map_of (rev members) (map of_char ''loginTime''))
      | _ \<Rightarrow> Inr None)"

text \<open>
  The operand of the subtraction is converted to a number. JavaScript numbers are the
  IEEE 754 doubles: \<^verbatim>\<open>NaN\<close>, the two infinities, and the finite doubles, each of which is a
  rational number (the two zeros are not told apart: they subtract and compare alike).
\<close>

datatype number = NaN | PlusInfinity | MinusInfinity | Finite rat

text \<open>
  The double nearest to a rational number, ties to the even significand. A positive \<open>a\<close>
  lies in \<open>[2^k, 2^(k+1))\<close> for \<open>k = binaryExponent a\<close>; the doubles there are the multiples
  of \<open>2^(k-52)\<close>, and below \<open>2^(-1022)\<close> the multiples of \<open>2^(-1074)\<close>. A magnitude that rounds
  to \<open>2^1024\<close> or more becomes an infinity.
\<close>

fun bitLength :: "nat \<Rightarrow> nat" where
  "bitLength n = (if n = 0 then 0 else Suc (bitLength (n div 2)))"

declare bitLength.simps [simp del]

definition binaryExponent :: "rat \<Rightarrow> int" where
  "binaryExponent a =
     (if 1 \<le> a then int (bitLength (nat \<lfloor>a\<rfloor>)) - 1
      else - int (bitLength (nat (\<lceil>1 / a\<rceil> - 1))))"

definition pow2 :: "int \<Rightarrow> rat" where
  "pow2 e = (if 0 \<le> e then 2 ^ nat e else 1 / 2 ^ nat (- e))"

definition roundHalfEven :: "rat \<Rightarrow> int" where
  "roundHalfEven r =
     (if r - of_int \<lfloor>r\<rfloor> < 1 / 2 then \<lfloor>r\<rfloor>
      else if 1 / 2 < r - of_int \<lfloor>r\<rfloor> then \<lfloor>r\<rfloor> + 1
      else if even \<lfloor>r\<rfloor> then \<lfloor>r\<rfloor>
      else \<lfloor>r\<rfloor> + 1)"

definition quantize :: "int \<Rightarrow> rat \<Rightarrow> rat" where
  "quantize E a = of_int (roundHalfEven (a / pow2 E)) * pow2 E"

definition roundMagnitude :: "rat \<Rightarrow> rat" where
  "roundMagnitude a = quantize (max (binaryExponent a - 52) (- 1074)) a"

definition signedDouble :: "bool \<Rightarrow> rat \<Rightarrow> number" where
  "signedDouble negative x =
     (if 2 ^ 1024 \<le> x then (if negative then MinusInfinity else PlusInfinity)
      else Finite (if negative then - x else x))"

definition toDouble :: "rat \<Rightarrow> number" where
  "toDouble q = (if q = 0 then Finite 0 else signedDouble (q < 0) (roundMagnitude \<bar>q\<bar>))"

text \<open>The value that a number written as mantissa and decimal exponent stands for.\<close>

definition scientific :: "int \<Rightarrow> int \<Rightarrow> rat" where
  "scientific m e = (if 0 \<le> e then of_int m * 10 ^ nat e else of_int m / 10 ^ nat (- e))"

text \<open>
  A string operand is read as a numeric literal (\<^verbatim>\<open>StringToNumber\<close>): white space and line
  terminators around it are dropped; the empty string is \<open>0\<close>; \<^verbatim>\<open>Infinity\<close> and a decimal
  literal (digits with an optional fraction and exponent, or a fraction alone) may carry a
  sign; \<^verbatim>\<open>0x\<close>, \<^verbatim>\<open>0o\<close> and \<^verbatim>\<open>0b\<close> literals may not; every other string is \<^verbatim>\<open>NaN\<close>.
\<close>

definition isStrWhiteSpace :: "nat \<Rightarrow> bool" where
  "isStrWhiteSpace u \<longleftrightarrow>
     u \<in> set [0x09, 0x0A, 0x0B, 0x0C, 0x0D, 0x20, 0xA0, 0x1680, 0x2028, 0x2029, 0x202F, 0x205F,
              0x3000, 0xFEFF]
     \<or> (0x2000 \<le> u \<and> u \<le> 0x200A)"

definition trimUnits :: "nat list \<Rightarrow> nat list" where
  "trimUnits x = rev (dropWhile isStrWhiteSpace (rev (dropWhile isStrWhiteSpace x)))"

definition isDecimalDigit :: "nat \<Rightarrow> bool" where
  "isDecimalDigit u \<longleftrightarrow> 0x30 \<le> u \<and> u \<le> 0x39"

definition radixDigit :: "nat \<Rightarrow> nat option" where
  "radixDigit u =
     (if 0x30 \<le> u \<and> u \<le> 0x39 then Some (u - 0x30)
      else if 0x61 \<le> u \<and> u \<le> 0x66 then Some (u - 0x61 + 10)
      else if 0x41 \<le> u \<and> u \<le> 0x46 then Some (u - 0x41 + 10)
      else None)"

definition isRadixDigit :: "nat \<Rightarrow> nat \<Rightarrow> bool" where
  "isRadixDigit radix u = (case radixDigit u of None \<Rightarrow> False | Some d \<Rightarrow> d < radix)"

definition radixValue :: "nat \<Rightarrow> nat list \<Rightarrow> nat" where
  "radixValue radix us =
     foldl (\<lambda>n u. radix * n + (case radixDigit u of None \<Rightarrow> 0 | Some d \<Rightarrow> d)) 0 us"

definition radixOf :: "nat \<Rightarrow> nat option" where
  "radixOf p =
     (if p = 0x78 \<or> p = 0x58 then Some 16
      else if p = 0x6F \<or> p = 0x4F then Some 8
      else if p = 0x62 \<or> p = 0x42 then Some 2
      else None)"

definition nonDecimalLiteral :: "nat list \<Rightarrow> nat option" where
  "nonDecimalLiteral us =
     (case us of
        z # p # ds \<Rightarrow>
          (case radixOf p of
             None \<Rightarrow> None
           | Some radix \<Rightarrow>
               if z = 0x30 \<and> ds \<noteq> [] \<and> list_all (isRadixDigit radix) ds
               then Some (radixValue radix ds) else None)
      | _ \<Rightarrow> None)"

definition exponentOf :: "nat list \<Rightarrow> int option" where
  "exponentOf r =
     (case r of
        [] \<Rightarrow> Some 0
      | c # r1 \<Rightarrow>
          if c = 0x65 \<or> c = 0x45 then
            (case r1 of
               [] \<Rightarrow> None
             | g # r2 \<Rightarrow>
                 if g = 0x2D then
                   (if r2 \<noteq> [] \<and> list_all isDecimalDigit r2
                    then Some (- int (radixValue 10 r2)) else None)
                 else if g = 0x2B then
                   (if r2 \<noteq> [] \<and> list_all isDecimalDigit r2
                    then Some (int (radixValue 10 r2)) else None)
                 else (if list_all isDecimalDigit r1 then Some (int (radixValue 10 r1)) else None))
          else None)"

definition withExponent :: "nat list \<Rightarrow> nat list \<Rightarrow> nat list \<Rightarrow> rat option" where
  "withExponent ip fp r =
     (case exponentOf r of
        None \<Rightarrow> None
      | Some e \<Rightarrow> Some (scientific (int (radixValue 10 (ip @ fp))) (e - int (length fp))))"

definition unsignedDecimal :: "nat list \<Rightarrow> rat option" where
  "unsignedDecimal us =
     (case dropWhile isDecimalDigit us of
        [] \<Rightarrow> if us = [] then None else withExponent us [] []
      | c # r1 \<Rightarrow>
          if c = 0x2E then
            (if takeWhile isDecimalDigit us = [] \<and> takeWhile isDecimalDigit r1 = [] then None
             else withExponent (takeWhile isDecimalDigit us) (takeWhile isDecimalDigit r1)
                    (dropWhile isDecimalDigit r1))
          else if takeWhile isDecimalDigit us = [] then None
          else withExponent (takeWhile isDecimalDigit us) [] (c # r1))"

definition unsignedLiteral :: "bool \<Rightarrow> nat list \<Rightarrow> number" where
  "unsignedLiteral negative us =
     (if us = map of_char ''Infinity'' then (if negative then MinusInfinity else PlusInfinity)
      else (case unsignedDecimal us of
              None \<Rightarrow> NaN
            | Some q \<Rightarrow> toDouble (if negative then - q else q)))"

definition stringToNumber :: "nat list \<Rightarrow> number" where
  "stringToNumber x =
     (case trimUnits x of
        [] \<Rightarrow> Finite 0
      | c # r \<Rightarrow>
          (case nonDecimalLiteral (c # r) of
             Some n \<Rightarrow> toDouble (of_nat n)
           | None \<Rightarrow>
               if c = 0x2D then unsignedLiteral True r
               else if c = 0x2B then unsignedLiteral False r
               else unsignedLiteral False (c # r)))"

text \<open>
  An object or array operand is first converted to a string by its \<^verbatim>\<open>toString\<close> method. A
  parsed object inherits \<^verbatim>\<open>Object.prototype.toString\<close>, which gives \<^verbatim>\<open>[object Object]\<close>,
  unless it has a member named \<^verbatim>\<open>toString\<close> of its own: a parsed value is never a function,
  so the conversion then throws a \<^verbatim>\<open>TypeError\<close>. An array joins the strings of its elements
  with commas, \<^verbatim>\<open>null\<close> giving the empty string; so the empty array reads as \<open>0\<close>, an array
  of one element as that element's string does, and a longer array as \<^verbatim>\<open>NaN\<close>. The string
  of a number reads back as the same number.
\<close>

fun throwsOnToString :: "json \<Rightarrow> bool" where
  "throwsOnToString (JObject members) \<longleftrightarrow> map of_char ''toString'' \<in> set (map fst members)"
| "throwsOnToString (JArray vs) \<longleftrightarrow> list_ex throwsOnToString vs"
| "throwsOnToString v \<longleftrightarrow> False"

fun joinedNumber :: "json \<Rightarrow> number" where
  "joinedNumber JNull = Finite 0"
| "joinedNumber (JBool b) = NaN"
| "joinedNumber (JNumber m e) = toDouble (scientific m e)"
| "joinedNumber (JString x) = stringToNumber x"
| "joinedNumber (JObject members) = NaN"
| "joinedNumber (JArray []) = Finite 0"
| "joinedNumber (JArray [v]) = joinedNumber v"
| "joinedNumber (JArray (v # w # vs)) = NaN"

text \<open>
  \<^verbatim>\<open>ToNumber\<close> of the value read from \<^verbatim>\<open>parsedSession.loginTime\<close>: \<^verbatim>\<open>undefined\<close> gives \<^verbatim>\<open>NaN\<close>,
  \<^verbatim>\<open>null\<close> and \<^verbatim>\<open>false\<close> give \<open>0\<close>, \<^verbatim>\<open>true\<close> gives \<open>1\<close>, a number is the double that
  \<^verbatim>\<open>JSON.parse\<close> made of its digits.
\<close>

definition toNumber :: "json option \<Rightarrow> js_error + number" where
  "toNumber v =
     (case v of
        None \<Rightarrow> Inr NaN
      | Some JNull \<Rightarrow> Inr (Finite 0)
      | Some (JBool b) \<Rightarrow> Inr (Finite (if b then 1 else 0))
      | Some (JNumber m e) \<Rightarrow> Inr (toDouble (scientific m e))
      | Some (JString x) \<Rightarrow> Inr (stringToNumber x)
      | Some (JArray vs) \<Rightarrow>
          if throwsOnToString (JArray vs) then Inl TypeError else Inr (joinedNumber (JArray vs))
      | Some (JObject members) \<Rightarrow>
          if throwsOnToString (JObject members) then Inl TypeError else Inr NaN)"

text \<open>
  \<^verbatim>\<open>Date.now() - x\<close>: the clock reading is a whole number of milliseconds, which a double
  holds exactly; the difference is rounded to the nearest double.
\<close>

definition subtractFrom :: "int \<Rightarrow> number \<Rightarrow> number" where
  "subtractFrom now x =
     (case x of
        NaN \<Rightarrow> NaN
      | PlusInfinity \<Rightarrow> MinusInfinity
      | MinusInfinity \<Rightarrow> PlusInfinity
      | Finite v \<Rightarrow> toDouble (of_int now - v))"

text \<open>\<^verbatim>\<open>x > limit\<close>, which is false when \<open>x\<close> is \<^verbatim>\<open>NaN\<close>.\<close>

definition exceeds :: "number \<Rightarrow> int \<Rightarrow> bool" where
  "exceeds x limit =
     (case x of
        NaN \<Rightarrow> False
      | PlusInfinity \<Rightarrow> True
      | MinusInfinity \<Rightarrow> False
      | Finite v \<Rightarrow> of_int limit < v)"

text \<open>The \<^verbatim>\<open>catch\<close> block of the session check.\<close>

definition invalidSession :: "Dashboard \<Rightarrow> Dashboard" where
  "invalidSession = seq [console_error ''Invalid session:'', removeItem, navigate ''/admin'']"

text \<open>
  The first \<^verbatim>\<open>useEffect\<close> of the component. \<^verbatim>\<open>!session\<close> holds for \<^verbatim>\<open>null\<close> (no item
  stored) and for the empty string. Whatever is thrown inside the \<^verbatim>\<open>try\<close> block (by
  \<^verbatim>\<open>JSON.parse\<close>, by reading a property of \<^verbatim>\<open>null\<close>, by the conversion of the operand)
  ends in the \<^verbatim>\<open>catch\<close> block. An admitted session starts \<^verbatim>\<open>fetchData\<close>, whose answers are
  the last three arguments.
\<close>

definition checkAdminSession ::
  "int \<Rightarrow> bool \<Rightarrow> User list option response \<Rightarrow> Blog list option response
     \<Rightarrow> Dashboard \<Rightarrow> Dashboard"
where
  "checkAdminSession now usersFirst ru rb s =
     (case localStorage s of
        None \<Rightarrow> navigate ''/admin'' s
      | Some session \<Rightarrow>
          if session = [] then navigate ''/admin'' s
          else
            (case JSON_parse session of
               Inl err \<Rightarrow> invalidSession s
             | Inr parsedSession \<Rightarrow>
                 (case loginTime parsedSession of
                    Inl err \<Rightarrow> invalidSession s
                  | Inr v \<Rightarrow>
                      (case toNumber v of
                         Inl err \<Rightarrow> invalidSession s
                       | Inr x \<Rightarrow>
                           if exceeds (subtractFrom now x) (24 * 60 * 60 * 1000) then
                             seq [removeItem, navigate ''/admin''] s
                           else
                             seq [setAdminSession (Some parsedSession),
                                  fetchData usersFirst ru rb] s))))"

subsection \<open>The initial state and sample data\<close>

text \<open>
  The state of the component when it is mounted (the initial values of its \<^verbatim>\<open>useState\<close>
  cells, nothing stored, shown, logged or sent), two accounts, a post and two serialized
  sessions, used to run the handlers on concrete inputs.
\<close>

definition initialState :: Dashboard where
  "initialState =
     \<lparr>adminSession = None, users = [], blogs = [], editingBlog = None, editingUser = None,
      isCreateBlogOpen = False, isCreateUserOpen = False,
      newBlog = \<lparr>nb_title = [], nb_content = [], nb_excerpt = [], nb_published = False\<rparr>,
      newUser = \<lparr>nu_email = [], nu_password = [], nu_full_name = [],
                 nu_subscription_tier = ''free''\<rparr>,
      loading = True, localStorage = None, navigated = [], toasts = [], console = [],
      calls = [], timers = []\<rparr>"

definition ada :: User where
  "ada = \<lparr>user_id = ''u1'', email = ''ada@example.com'', full_name = ''Ada'',
           subscription_tier = ''premium'', subscription_start = ''2023-01-01T00:00:00.000Z'',
           subscription_end = Some ''2023-02-01T00:00:00.000Z'', document_count = 3,
           created_at = ''2023-01-01T00:00:00.000Z''\<rparr>"

definition bob :: User where
  "bob = \<lparr>user_id = ''u2'', email = ''bob@example.com'', full_name = ''Bob'',
           subscription_tier = ''free'', subscription_start = ''2023-03-01T00:00:00.000Z'',
           subscription_end = None, document_count = 0,
           created_at = ''2023-03-01T00:00:00.000Z''\<rparr>"

definition post :: Blog where
  "post = \<lparr>blog_id = ''b1'', title = ''Hello'', content = ''First post'', excerpt = None,
            published = True, blog_created_at = ''2023-04-01T00:00:00.000Z''\<rparr>"

definition storedSession :: string where
  \<open>storedSession =
     ''{"id":"a1","email":"ada@example.com","full_name":"Ada","loginTime":1700000000000}''\<close>

definition fractionalSession :: string where
  \<open>fractionalSession = ''{"loginTime":1699913599999.5}''\<close>

subsection \<open>A reference definition for the account edit\<close>

text \<open>
  The row that the specification describes for a successful account edit: the draft
  held by the edit dialog, with the three columns of the update that was sent to the
  profile store written over it.
\<close>

definition mergePatch :: "User \<Rightarrow> ProfilePatch \<Rightarrow> User" where
  "mergePatch draft patch =
     draft\<lparr>full_name := p_full_name patch,
           subscription_tier := p_subscription_tier patch,
           subscription_end := p_subscription_end patch\<rparr>"

section \<open>Properties\<close>

subsection \<open>Auxiliary facts\<close>

lemmas statement_defs =
  seq_def console_log_def console_warn_def console_error_def toast_error_def toast_success_def
  supabase_def navigate_def removeItem_def setTimeout_def setAdminSession_def setUsers_def
  setBlogs_def setEditingBlog_def setEditingUser_def setIsCreateBlogOpen_def
  setIsCreateUserOpen_def setNewBlog_def setNewUser_def setLoading_def

lemmas fetch_defs =
  fetchUsers_def fetchUsers_request_def fetchUsers_answer_def
  fetchBlogs_def fetchBlogs_request_def fetchBlogs_answer_def fetchData_def

lemmas example_defs = initialState_def ada_def bob_def post_def

lemmas date_defs =
  toISOString_def dateString_def timeString_def yearString_def civil_def civilOfEra_def
  civilOfYear_def yearNumber_def dayOfMonth_def monthNumber_def monthIndex_def dayOfYear_def
  yearOfEra_def digits6_def digits4_def digits3_def digits2_def digit_def

lemmas json_defs =
  JSON_parse_def lex_step_def lex_finish_def lex_start_def numberToken_def unsignedNumber_def
  fractionPart_def exponentPart_def wordToken_def decimal_def digitValue_def hexValue_def
  escapeChar_def punctuation_def isLetter_def isNumberChar_def isDigit_def isJsonSpace_def
  parse_step_def key_step_def close_step_def value_step_def deliver_def

text \<open>\<^verbatim>\<open>!x.trim()\<close> holds exactly for the strings made of white space only.\<close>

lemma trim_empty_iff: "trim x = [] \<longleftrightarrow> list_all isWhiteSpace x"
proof
  assume "trim x = []"
  then have all: "\<forall>c \<in> set (dropWhile isWhiteSpace x). isWhiteSpace c"
    by (simp add: trim_def)
  have "dropWhile isWhiteSpace x = []"
  proof (rule ccontr)
    assume ne: "dropWhile isWhiteSpace x \<noteq> []"
    then have "\<not> isWhiteSpace (hd (dropWhile isWhiteSpace x))"
      by (rule hd_dropWhile)
    moreover have "hd (dropWhile isWhiteSpace x) \<in> set (dropWhile isWhiteSpace x)"
      using ne by (rule hd_in_set)
    ultimately show False
      using all by blast
  qed
  then show "list_all isWhiteSpace x"
    by (simp add: list_all_iff)
next
  assume "list_all isWhiteSpace x"
  then show "trim x = []"
    by (auto simp: trim_def list_all_iff dest: set_dropWhileD)
qed

subsection \<open>Revenue\<close>

text \<open>
  Claim C9. Whatever the cached accounts are, the revenue figure is nine times the number
  of positions of the cache that hold an account whose tier is the string \<open>premium\<close>, and
  this is the figure on the page once the loading screen is gone.
\<close>

theorem revenue_is_nine_per_premium_account:
  "totalRevenue s =
     9 * card {i. i < length (users s) \<and> subscription_tier (users s ! i) = ''premium''}
   \<and> displayedRevenue (s\<lparr>loading := False\<rparr>) =
     Some (9 * card {i. i < length (users s)
                        \<and> subscription_tier (users s ! i) = ''premium''})"
  by (simp add: totalRevenue_def premiumUsers_def displayedRevenue_def length_filter_conv_card)

subsection \<open>Fetching\<close>

text \<open>
  Claim C7. When \<^verbatim>\<open>fetchUsers\<close> fails, by an error in the answer or by a rejected request,
  the cached accounts stay as they were and one error toast is added; when it succeeds
  the cache becomes the rows of the answer (the empty list when the answer carries no
  rows). The same holds for \<^verbatim>\<open>fetchBlogs\<close> and the cached posts.
\<close>

theorem fetch_failure_keeps_cache:
  "users (fetchUsers (Err m) s) = users s
   \<and> toasts (fetchUsers (Err m) s) = toasts s @ [ToastError (''Failed to fetch users: '' @ m)]
   \<and> users (fetchUsers Throw s) = users s
   \<and> toasts (fetchUsers Throw s) = toasts s @ [ToastError ''Failed to fetch users'']
   \<and> users (fetchUsers (Ok (Some rows)) s) = rows
   \<and> users (fetchUsers (Ok None) s) = []
   \<and> toasts (fetchUsers (Ok data) s) = toasts s
   \<and> blogs (fetchBlogs (Err m) s) = blogs s
   \<and> toasts (fetchBlogs (Err m) s) = toasts s @ [ToastError (''Failed to fetch blogs: '' @ m)]
   \<and> blogs (fetchBlogs Throw s) = blogs s
   \<and> toasts (fetchBlogs Throw s) = toasts s @ [ToastError ''Failed to fetch blogs'']
   \<and> blogs (fetchBlogs (Ok (Some posts)) s) = posts
   \<and> blogs (fetchBlogs (Ok None) s) = []
   \<and> toasts (fetchBlogs (Ok data') s) = toasts s"
  by (simp add: fetch_defs statement_defs)

subsection \<open>Validation\<close>

text \<open>
  Claim C8. When the e-mail address or the password of the create-account dialog is
  empty or made of white space only, \<^verbatim>\<open>createUser\<close> adds the toast
  \<open>Please fill in email and password\<close> and changes nothing else: no request is sent, no
  timer is set, the caches and the dialogs stay as they are. The same holds for
  \<^verbatim>\<open>createBlog\<close> and \<^verbatim>\<open>updateBlog\<close> when the title or the content is empty or white space
  only, with the toast \<open>Please fill in title and content\<close>.
\<close>

theorem validation_stops_before_backend:
  "(list_all isWhiteSpace (nu_email (newUser s)) \<or> list_all isWhiteSpace (nu_password (newUser s))
      \<longrightarrow> createUser now r s =
            s\<lparr>toasts := toasts s @ [ToastError ''Please fill in email and password'']\<rparr>)
   \<and> (list_all isWhiteSpace (nb_title (newBlog s)) \<or> list_all isWhiteSpace (nb_content (newBlog s))
      \<longrightarrow> createBlog rg ri rf s =
            s\<lparr>toasts := toasts s @ [ToastError ''Please fill in title and content'']\<rparr>)
   \<and> (editingBlog s = Some b \<and> (list_all isWhiteSpace (title b) \<or> list_all isWhiteSpace (content b))
      \<longrightarrow> updateBlog ru s =
            s\<lparr>toasts := toasts s @ [ToastError ''Please fill in title and content'']\<rparr>)"
  by (simp add: createUser_def createBlog_def updateBlog_def toast_error_def trim_empty_iff)

text \<open>The statement above on sample data.\<close>

theorem validation_stops_before_backend_witness:
  "createUser 0 (Ok (Some ''u9''))
     (initialState\<lparr>newUser := \<lparr>nu_email = ''  '', nu_password = ''secret'', nu_full_name = ''Eve'',
                                 nu_subscription_tier = ''premium''\<rparr>\<rparr>)
     = initialState\<lparr>newUser := \<lparr>nu_email = ''  '', nu_password = ''secret'', nu_full_name = ''Eve'',
                                 nu_subscription_tier = ''premium''\<rparr>,
                    toasts := [ToastError ''Please fill in email and password'']\<rparr>
   \<and> createBlog (Ok ()) (Ok ()) (Ok None)
     (initialState\<lparr>newBlog := \<lparr>nb_title = ''News'', nb_content = [], nb_excerpt = [],
                                 nb_published = True\<rparr>, blogs := [post]\<rparr>)
     = initialState\<lparr>newBlog := \<lparr>nb_title = ''News'', nb_content = [], nb_excerpt = [],
                                 nb_published = True\<rparr>, blogs := [post],
                    toasts := [ToastError ''Please fill in title and content'']\<rparr>
   \<and> updateBlog (Ok post)
     (initialState\<lparr>editingBlog := Some (post\<lparr>title := [CHR 0x09, CHR 0x20]\<rparr>), blogs := [post]\<rparr>)
     = initialState\<lparr>editingBlog := Some (post\<lparr>title := [CHR 0x09, CHR 0x20]\<rparr>), blogs := [post],
                    toasts := [ToastError ''Please fill in title and content'']\<rparr>"
  using validation_stops_before_backend
    [of "initialState\<lparr>newUser := \<lparr>nu_email = ''  '', nu_password = ''secret'',
                                    nu_full_name = ''Eve'', nu_subscription_tier = ''premium''\<rparr>\<rparr>"
        0 "Ok (Some ''u9'')" "Ok ()" "Ok ()" "Ok None" post "Ok post"]
    validation_stops_before_backend
    [of "initialState\<lparr>newBlog := \<lparr>nb_title = ''News'', nb_content = [], nb_excerpt = [],
                                    nb_published = True\<rparr>, blogs := [post]\<rparr>"
        0 "Ok (Some ''u9'')" "Ok ()" "Ok ()" "Ok None" post "Ok post"]
    validation_stops_before_backend
    [of "initialState\<lparr>editingBlog := Some (post\<lparr>title := [CHR 0x09, CHR 0x20]\<rparr>),
                       blogs := [post]\<rparr>"
        0 "Ok (Some ''u9'')" "Ok ()" "Ok ()" "Ok None" "post\<lparr>title := [CHR 0x09, CHR 0x20]\<rparr>"
        "Ok post"]
  by (simp add: example_defs isWhiteSpace_def)

subsection \<open>Excerpts\<close>

text \<open>
  Claim C3. The excerpt that \<^verbatim>\<open>createBlog\<close> inserts and \<^verbatim>\<open>updateBlog\<close> writes is, for an empty
  (or absent) excerpt field, the first 150 characters of the content followed by three
  dots; a content of at most 150 characters, also of exactly 150, is taken whole and
  followed by the dots. A non-empty excerpt is sent as it is. These are the rows the
  two handlers send to the post store once validation has passed.
\<close>

theorem empty_excerpt_defaults_to_content_prefix:
  "(nb_excerpt nb = [] \<longrightarrow>
      d_excerpt (blogData nb) = take 150 (nb_content nb) @ ''...'')
   \<and> (nb_excerpt nb = [] \<and> length (nb_content nb) \<le> 150 \<longrightarrow>
      d_excerpt (blogData nb) = nb_content nb @ ''...'')
   \<and> (nb_excerpt nb \<noteq> [] \<longrightarrow> d_excerpt (blogData nb) = nb_excerpt nb)
   \<and> (excerpt b = None \<or> excerpt b = Some [] \<longrightarrow>
      d_excerpt (blogUpdate b) = take 150 (content b) @ ''...'')
   \<and> ((excerpt b = None \<or> excerpt b = Some []) \<and> length (content b) \<le> 150 \<longrightarrow>
      d_excerpt (blogUpdate b) = content b @ ''...'')
   \<and> (excerpt b = Some x \<and> x \<noteq> [] \<longrightarrow> d_excerpt (blogUpdate b) = x)
   \<and> (trim (nb_title (newBlog s)) \<noteq> [] \<and> trim (nb_content (newBlog s)) \<noteq> [] \<and> rg \<noteq> Throw \<longrightarrow>
      take 2 (drop (length (calls s)) (calls (createBlog rg ri rf s)))
        = [AuthGetUser, BlogsInsert (blogData (newBlog s))])
   \<and> (editingBlog s = Some b \<and> trim (title b) \<noteq> [] \<and> trim (content b) \<noteq> [] \<longrightarrow>
      calls (updateBlog ru s) = calls s @ [BlogsUpdate (blog_id b) (blogUpdate b)])"
proof -
  have create:
    "take 2 (drop (length (calls s)) (calls (createBlog rg ri rf s)))
       = [AuthGetUser, BlogsInsert (blogData (newBlog s))]"
    if "trim (nb_title (newBlog s)) \<noteq> []" "trim (nb_content (newBlog s)) \<noteq> []" "rg \<noteq> Throw"
    using that
    by (cases rg; cases ri; cases rf)
       (simp_all add: createBlog_def fetch_defs statement_defs)
  have update:
    "calls (updateBlog ru s) = calls s @ [BlogsUpdate (blog_id b) (blogUpdate b)]"
    if "editingBlog s = Some b" "trim (title b) \<noteq> []" "trim (content b) \<noteq> []"
    using that by (cases ru) (simp_all add: updateBlog_def statement_defs)
  show ?thesis
    using create update
    by (auto simp: blogData_def blogUpdate_def js_or_def substring_def)
qed

text \<open>The statement above on sample data.\<close>

theorem empty_excerpt_defaults_to_content_prefix_witness:
  "d_excerpt (blogData \<lparr>nb_title = ''T'', nb_content = replicate 200 CHR ''a'', nb_excerpt = [],
                         nb_published = False\<rparr>) = replicate 150 CHR ''a'' @ ''...''
   \<and> d_excerpt (blogData \<lparr>nb_title = ''T'', nb_content = replicate 150 CHR ''a'', nb_excerpt = [],
                         nb_published = False\<rparr>) = replicate 150 CHR ''a'' @ ''...''
   \<and> d_excerpt (blogData \<lparr>nb_title = ''T'', nb_content = ''short'', nb_excerpt = ''mine'',
                         nb_published = False\<rparr>) = ''mine''
   \<and> d_excerpt (blogUpdate post) = ''First post...''
   \<and> d_excerpt (blogUpdate (post\<lparr>excerpt := Some ''kept''\<rparr>)) = ''kept''
   \<and> take 2 (calls (createBlog (Ok ()) (Ok ()) (Ok None)
        (initialState\<lparr>newBlog := \<lparr>nb_title = ''T'', nb_content = ''short'', nb_excerpt = [],
                                    nb_published = False\<rparr>\<rparr>)))
      = [AuthGetUser,
         BlogsInsert \<lparr>d_title = ''T'', d_content = ''short'', d_excerpt = ''short...'',
                      d_published = False\<rparr>]
   \<and> calls (updateBlog (Ok post) (initialState\<lparr>editingBlog := Some post\<rparr>))
      = [BlogsUpdate ''b1'' \<lparr>d_title = ''Hello'', d_content = ''First post'',
                              d_excerpt = ''First post...'', d_published = True\<rparr>]"
proof -
  let ?long = "\<lparr>nb_title = ''T'', nb_content = replicate 200 CHR ''a'', nb_excerpt = [],
                 nb_published = False\<rparr>"
  let ?exact = "\<lparr>nb_title = ''T'', nb_content = replicate 150 CHR ''a'', nb_excerpt = [],
                  nb_published = False\<rparr>"
  let ?mine = "\<lparr>nb_title = ''T'', nb_content = ''short'', nb_excerpt = ''mine'',
                 nb_published = False\<rparr>"
  let ?short = "\<lparr>nb_title = ''T'', nb_content = ''short'', nb_excerpt = [],
                  nb_published = False\<rparr>"
  note claim = empty_excerpt_defaults_to_content_prefix
  have white: "trim ''T'' \<noteq> []" "trim ''short'' \<noteq> []" "trim ''Hello'' \<noteq> []"
    "trim ''First post'' \<noteq> []"
    by (simp_all add: trim_def isWhiteSpace_def)
  have 1: "d_excerpt (blogData ?long) = replicate 150 CHR ''a'' @ ''...''"
    using claim [where nb = ?long] by simp
  have 2: "d_excerpt (blogData ?exact) = replicate 150 CHR ''a'' @ ''...''"
    using claim [where nb = ?exact] by simp
  have 3: "d_excerpt (blogData ?mine) = ''mine''"
    using claim [where nb = ?mine] by simp
  have 4: "d_excerpt (blogUpdate post) = ''First post...''"
    using claim [where b = post] by (simp add: post_def)
  have 5: "d_excerpt (blogUpdate (post\<lparr>excerpt := Some ''kept''\<rparr>)) = ''kept''"
    using claim [where b = "post\<lparr>excerpt := Some ''kept''\<rparr>" and x = "''kept''"] by simp
  have "take 2 (calls (createBlog (Ok ()) (Ok ()) (Ok None) (initialState\<lparr>newBlog := ?short\<rparr>)))
      = [AuthGetUser, BlogsInsert (blogData ?short)]"
    using claim [where s = "initialState\<lparr>newBlog := ?short\<rparr>" and rg = "Ok ()"
                   and ri = "Ok ()" and rf = "Ok None"] white
    by (simp add: initialState_def)
  moreover have "d_excerpt (blogData ?short) = ''short...''"
    using claim [where nb = ?short] by simp
  ultimately have 6:
    "take 2 (calls (createBlog (Ok ()) (Ok ()) (Ok None) (initialState\<lparr>newBlog := ?short\<rparr>)))
      = [AuthGetUser, BlogsInsert \<lparr>d_title = ''T'', d_content = ''short'',
                                      d_excerpt = ''short...'', d_published = False\<rparr>]"
    by (simp add: blogData_def)
  have "calls (updateBlog (Ok post) (initialState\<lparr>editingBlog := Some post\<rparr>))
      = [BlogsUpdate (blog_id post) (blogUpdate post)]"
    using claim [where s = "initialState\<lparr>editingBlog := Some post\<rparr>" and b = post
                   and ru = "Ok post"] white
    by (simp add: initialState_def post_def)
  then have 7: "calls (updateBlog (Ok post) (initialState\<lparr>editingBlog := Some post\<rparr>))
      = [BlogsUpdate ''b1'' \<lparr>d_title = ''Hello'', d_content = ''First post'',
                              d_excerpt = ''First post...'', d_published = True\<rparr>]"
    using 4 by (simp add: blogUpdate_def post_def)
  show ?thesis
    using 1 2 3 4 5 6 7 by blast
qed

subsection \<open>Editing an account\<close>

lemma toISOString_in_range:
  "\<bar>t\<bar> \<le> 8640000000000000 \<Longrightarrow> \<exists>stamp. toISOString t = Some stamp"
  by (simp add: toISOString_def)

lemma updateUser_calls:
  "editingUser s = Some e \<Longrightarrow> subscriptionEnd now e = Inr subEnd \<Longrightarrow>
     calls (updateUser now r s) =
       calls s @ [ProfilesUpdate (user_id e)
                    \<lparr>p_full_name = full_name e, p_subscription_tier = subscription_tier e,
                     p_subscription_end = subEnd\<rparr>]"
  by (cases r) (simp_all add: updateUser_def statement_defs)

lemma updateUser_users:
  "editingUser s = Some e \<Longrightarrow> subscriptionEnd now e = Inr subEnd \<Longrightarrow>
     users (updateUser now (Ok u) s) =
       map (\<lambda>user. if user_id user = user_id e then e\<lparr>subscription_end := subEnd\<rparr> else user)
         (users s)"
  by (simp add: updateUser_def statement_defs)

lemma thirty_days_after_example:
  "toISOString (1700000000000 + 30 * 24 * 60 * 60 * 1000) = Some ''2023-12-14T22:13:20.000Z''"
  by (simp add: date_defs)

text \<open>
  Claim C4. When the draft of the edit dialog has the tier \<open>premium\<close> and no end date
  (\<^verbatim>\<open>null\<close> or the empty string), the update that \<^verbatim>\<open>updateUser\<close> sends carries as end date
  the ISO form of the clock reading plus \<open>30 * 24 * 60 * 60 * 1000\<close> milliseconds, whatever
  the profile store answers. This needs the date to exist, which it does for every clock
  reading up to the year 275760. When the draft has an end date, that date is sent
  unchanged.
\<close>

theorem premium_without_expiry_gets_thirty_days:
  assumes "editingUser s = Some e" and "subscription_tier e = ''premium''"
  shows "(\<not> truthy (subscription_end e) \<and> \<bar>now + 30 * 24 * 60 * 60 * 1000\<bar> \<le> 8640000000000000
            \<longrightarrow> toISOString (now + 30 * 24 * 60 * 60 * 1000) \<noteq> None
              \<and> calls (updateUser now r s) =
                  calls s @ [ProfilesUpdate (user_id e)
                               \<lparr>p_full_name = full_name e, p_subscription_tier = ''premium'',
                                p_subscription_end = toISOString (now + 30 * 24 * 60 * 60 * 1000)\<rparr>])
         \<and> (truthy (subscription_end e)
            \<longrightarrow> calls (updateUser now r s) =
                  calls s @ [ProfilesUpdate (user_id e)
                               \<lparr>p_full_name = full_name e, p_subscription_tier = ''premium'',
                                p_subscription_end = subscription_end e\<rparr>])"
proof (intro conjI impI)
  assume a: "\<not> truthy (subscription_end e) \<and> \<bar>now + 30 * 24 * 60 * 60 * 1000\<bar> \<le> 8640000000000000"
  then obtain stamp where stamp: "toISOString (now + 30 * 24 * 60 * 60 * 1000) = Some stamp"
    using toISOString_in_range by blast
  then show "toISOString (now + 30 * 24 * 60 * 60 * 1000) \<noteq> None"
    by simp
  have "subscriptionEnd now e = Inr (Some stamp)"
    using a assms(2) stamp by (simp add: subscriptionEnd_def)
  then show "calls (updateUser now r s) =
      calls s @ [ProfilesUpdate (user_id e)
                   \<lparr>p_full_name = full_name e, p_subscription_tier = ''premium'',
                    p_subscription_end = toISOString (now + 30 * 24 * 60 * 60 * 1000)\<rparr>]"
    using updateUser_calls [OF assms(1)] assms(2) stamp by simp
next
  assume "truthy (subscription_end e)"
  then have "subscriptionEnd now e = Inr (subscription_end e)"
    using assms(2) by (simp add: subscriptionEnd_def)
  then show "calls (updateUser now r s) =
      calls s @ [ProfilesUpdate (user_id e)
                   \<lparr>p_full_name = full_name e, p_subscription_tier = ''premium'',
                    p_subscription_end = subscription_end e\<rparr>]"
    using updateUser_calls [OF assms(1)] assms(2) by simp
qed

text \<open>The statement above on sample data.\<close>

theorem premium_without_expiry_gets_thirty_days_witness:
  "calls (updateUser 1700000000000 (Ok ())
            (initialState\<lparr>users := [ada, bob],
                           editingUser := Some (bob\<lparr>subscription_tier := ''premium''\<rparr>)\<rparr>))
     = [ProfilesUpdate ''u2''
          \<lparr>p_full_name = ''Bob'', p_subscription_tier = ''premium'',
           p_subscription_end = Some ''2023-12-14T22:13:20.000Z''\<rparr>]
   \<and> calls (updateUser 1700000000000 (Err ''denied'')
            (initialState\<lparr>users := [ada, bob], editingUser := Some ada\<rparr>))
     = [ProfilesUpdate ''u1''
          \<lparr>p_full_name = ''Ada'', p_subscription_tier = ''premium'',
           p_subscription_end = Some ''2023-02-01T00:00:00.000Z''\<rparr>]"
proof -
  let ?bob = "bob\<lparr>subscription_tier := ''premium''\<rparr>"
  let ?s = "initialState\<lparr>users := [ada, bob], editingUser := Some ?bob\<rparr>"
  let ?t = "initialState\<lparr>users := [ada, bob], editingUser := Some ada\<rparr>"
  have "calls (updateUser 1700000000000 (Ok ()) ?s) =
      calls ?s @ [ProfilesUpdate (user_id ?bob)
                    \<lparr>p_full_name = full_name ?bob, p_subscription_tier = ''premium'',
                     p_subscription_end = toISOString (1700000000000 + 30 * 24 * 60 * 60 * 1000)\<rparr>]"
    using premium_without_expiry_gets_thirty_days
            [where s = ?s and e = ?bob and now = 1700000000000 and r = "Ok ()"]
    by (simp add: truthy_def bob_def)
  then have 1: "calls (updateUser 1700000000000 (Ok ()) ?s) =
      [ProfilesUpdate ''u2''
         \<lparr>p_full_name = ''Bob'', p_subscription_tier = ''premium'',
          p_subscription_end = Some ''2023-12-14T22:13:20.000Z''\<rparr>]"
    by (simp only: thirty_days_after_example) (simp add: bob_def initialState_def)
  have "calls (updateUser 1700000000000 (Err ''denied'') ?t) =
      calls ?t @ [ProfilesUpdate (user_id ada)
                    \<lparr>p_full_name = full_name ada, p_subscription_tier = ''premium'',
                     p_subscription_end = subscription_end ada\<rparr>]"
    using premium_without_expiry_gets_thirty_days
            [where s = ?t and e = ada and now = 1700000000000 and r = "Err ''denied''"]
    by (simp add: truthy_def ada_def)
  then have 2: "calls (updateUser 1700000000000 (Err ''denied'') ?t) =
      [ProfilesUpdate ''u1''
         \<lparr>p_full_name = ''Ada'', p_subscription_tier = ''premium'',
          p_subscription_end = Some ''2023-02-01T00:00:00.000Z''\<rparr>]"
    by (simp add: ada_def initialState_def)
  show ?thesis
    using 1 2 by blast
qed

text \<open>
  Claim C5. When the draft of the edit dialog has the tier \<open>free\<close>, the update that
  \<^verbatim>\<open>updateUser\<close> sends carries \<^verbatim>\<open>null\<close> as end date, whatever end date the draft holds and
  whatever the profile store answers; after a successful update every cached record
  with the id of the draft has no end date either.
\<close>

theorem free_tier_clears_expiry:
  assumes "editingUser s = Some e" and "subscription_tier e = ''free''"
  shows "calls (updateUser now r s) =
           calls s @ [ProfilesUpdate (user_id e)
                        \<lparr>p_full_name = full_name e, p_subscription_tier = ''free'',
                         p_subscription_end = None\<rparr>]
         \<and> (\<forall>i < length (users s).
               user_id (users s ! i) = user_id e \<longrightarrow>
                 users (updateUser now (Ok u) s) ! i = e\<lparr>subscription_end := None\<rparr>
                 \<and> subscription_end (users (updateUser now (Ok u) s) ! i) = None)"
proof -
  have se: "subscriptionEnd now e = Inr None"
    using assms(2) by (simp add: subscriptionEnd_def)
  show ?thesis
    using updateUser_calls [OF assms(1) se] updateUser_users [OF assms(1) se] assms(2)
    by simp
qed

text \<open>The statement above on sample data.\<close>

theorem free_tier_clears_expiry_witness:
  "calls (updateUser 1700000000000 Throw
            (initialState\<lparr>users := [ada, bob],
                           editingUser := Some (ada\<lparr>subscription_tier := ''free''\<rparr>)\<rparr>))
     = [ProfilesUpdate ''u1''
          \<lparr>p_full_name = ''Ada'', p_subscription_tier = ''free'', p_subscription_end = None\<rparr>]
   \<and> subscription_end
        (users (updateUser 1700000000000 (Ok ())
                  (initialState\<lparr>users := [ada, bob],
                                 editingUser := Some (ada\<lparr>subscription_tier := ''free''\<rparr>)\<rparr>)) ! 0)
     = None
   \<and> subscription_end ada = Some ''2023-02-01T00:00:00.000Z''"
proof -
  let ?ada = "ada\<lparr>subscription_tier := ''free''\<rparr>"
  let ?s = "initialState\<lparr>users := [ada, bob], editingUser := Some ?ada\<rparr>"
  have 1: "calls (updateUser 1700000000000 Throw ?s) =
      [ProfilesUpdate ''u1''
         \<lparr>p_full_name = ''Ada'', p_subscription_tier = ''free'', p_subscription_end = None\<rparr>]"
    using free_tier_clears_expiry [where s = ?s and e = ?ada and now = 1700000000000 and r = Throw]
    by (simp add: ada_def initialState_def)
  have 2: "subscription_end (users (updateUser 1700000000000 (Ok ()) ?s) ! 0) = None"
    using free_tier_clears_expiry [where s = ?s and e = ?ada and now = 1700000000000 and u = "()"]
    by (simp add: ada_def initialState_def)
  show ?thesis
    using 1 2 by (simp add: ada_def)
qed

text \<open>
  Claim C1. After a successful account edit the cache has as many records as before; each
  position whose record has the id of the draft holds the draft with the columns of the
  update that was sent written over it (\<open>mergePatch\<close>), and each other position holds what
  it held. The update is the only request \<^verbatim>\<open>updateUser\<close> sends and it sets no timer: the
  list of accounts is not fetched again. The answer of the profile store carries no row,
  so the update sent is read here as the server's update of the row.
\<close>

theorem account_edit_replaces_record_in_place:
  assumes "editingUser s = Some e"
    and "subscriptionEnd now e = Inr subEnd"
    and "patch = \<lparr>p_full_name = full_name e, p_subscription_tier = subscription_tier e,
                   p_subscription_end = subEnd\<rparr>"
  shows "calls (updateUser now (Ok u) s) = calls s @ [ProfilesUpdate (user_id e) patch]
         \<and> timers (updateUser now (Ok u) s) = timers s
         \<and> length (users (updateUser now (Ok u) s)) = length (users s)
         \<and> (\<forall>i < length (users s).
               users (updateUser now (Ok u) s) ! i =
                 (if user_id (users s ! i) = user_id e then mergePatch e patch
                  else users s ! i))
         \<and> toasts (updateUser now (Ok u) s) = toasts s @ [ToastSuccess ''User updated successfully'']"
proof -
  have m: "mergePatch e patch = e\<lparr>subscription_end := subEnd\<rparr>"
    using assms(3) by (simp add: mergePatch_def)
  have t: "timers (updateUser now (Ok u) s) = timers s"
    "toasts (updateUser now (Ok u) s) = toasts s @ [ToastSuccess ''User updated successfully'']"
    using assms(1,2) by (simp_all add: updateUser_def statement_defs)
  show ?thesis
    using updateUser_calls [OF assms(1,2)] updateUser_users [OF assms(1,2)] assms(3) m t
    by simp
qed

text \<open>The statement above on sample data.\<close>

theorem account_edit_replaces_record_in_place_witness:
  "users (updateUser 1700000000000 (Ok ())
            (initialState\<lparr>users := [ada, bob],
                           editingUser := Some (bob\<lparr>full_name := ''Robert'',
                                                     subscription_tier := ''premium''\<rparr>)\<rparr>))
     = [ada,
        bob\<lparr>full_name := ''Robert'', subscription_tier := ''premium'',
            subscription_end := Some ''2023-12-14T22:13:20.000Z''\<rparr>]
   \<and> calls (updateUser 1700000000000 (Ok ())
            (initialState\<lparr>users := [ada, bob],
                           editingUser := Some (bob\<lparr>full_name := ''Robert'',
                                                     subscription_tier := ''premium''\<rparr>)\<rparr>))
     = [ProfilesUpdate ''u2''
          \<lparr>p_full_name = ''Robert'', p_subscription_tier = ''premium'',
           p_subscription_end = Some ''2023-12-14T22:13:20.000Z''\<rparr>]"
proof -
  let ?e = "bob\<lparr>full_name := ''Robert'', subscription_tier := ''premium''\<rparr>"
  let ?s = "initialState\<lparr>users := [ada, bob], editingUser := Some ?e\<rparr>"
  let ?p = "\<lparr>p_full_name = ''Robert'', p_subscription_tier = ''premium'',
             p_subscription_end = Some ''2023-12-14T22:13:20.000Z''\<rparr>"
  have se: "subscriptionEnd 1700000000000 ?e = Inr (Some ''2023-12-14T22:13:20.000Z'')"
    by (simp add: subscriptionEnd_def truthy_def bob_def date_defs)
  have e1: "editingUser ?s = Some ?e"
    by simp
  have e3: "?p = \<lparr>p_full_name = full_name ?e, p_subscription_tier = subscription_tier ?e,
                  p_subscription_end = Some ''2023-12-14T22:13:20.000Z''\<rparr>"
    by (simp add: bob_def)
  note claim = account_edit_replaces_record_in_place [OF e1 se e3, where u = "()"]
  from claim have len: "length (users (updateUser 1700000000000 (Ok ()) ?s)) = 2"
    by simp
  from claim have 0: "users (updateUser 1700000000000 (Ok ()) ?s) ! 0 = ada"
    by (simp add: ada_def bob_def)
  from claim have "users (updateUser 1700000000000 (Ok ()) ?s) ! 1 = mergePatch ?e ?p"
    by (simp add: ada_def bob_def)
  then have 1: "users (updateUser 1700000000000 (Ok ()) ?s) ! 1
      = bob\<lparr>full_name := ''Robert'', subscription_tier := ''premium'',
            subscription_end := Some ''2023-12-14T22:13:20.000Z''\<rparr>"
    by (simp add: mergePatch_def)
  have users: "users (updateUser 1700000000000 (Ok ()) ?s)
      = [ada, bob\<lparr>full_name := ''Robert'', subscription_tier := ''premium'',
                  subscription_end := Some ''2023-12-14T22:13:20.000Z''\<rparr>]"
    using len 0 1 by (simp add: list_eq_iff_nth_eq less_Suc_eq numeral_2_eq_2)
  from claim have calls: "calls (updateUser 1700000000000 (Ok ()) ?s) = [ProfilesUpdate ''u2'' ?p]"
    by (simp add: bob_def initialState_def)
  show ?thesis
    using users calls by blast
qed

subsection \<open>Deleting an account\<close>

text \<open>
  After a confirmed deletion whose profile delete succeeded, the account is gone from the
  cache, the only toast is the success toast, and the two delete requests are the only
  requests sent, whatever the identity service did: nothing is rolled back and no failure
  is shown. When the identity request is rejected the console receives one warning
  between the two informational entries.
\<close>

lemma deleteUser_after_profile_delete:
  "users (deleteUser True (Ok u) rAuth uid s) = filter (\<lambda>user. user_id user \<noteq> uid) (users s)
   \<and> toasts (deleteUser True (Ok u) rAuth uid s)
       = toasts s @ [ToastSuccess ''User deleted successfully'']
   \<and> calls (deleteUser True (Ok u) rAuth uid s)
       = calls s @ [ProfilesDelete uid, AuthAdminDeleteUser uid]
   \<and> console (deleteUser True (Ok u) Throw uid s)
       = console s @ [ConsoleLog ''Deleting user:'',
                      ConsoleWarn ''Auth delete failed, but profile was deleted:'',
                      ConsoleLog ''User deleted successfully'']
   \<and> console (deleteUser True (Ok u) (Ok u') uid s)
       = console s @ [ConsoleLog ''Deleting user:'', ConsoleLog ''User deleted successfully'']"
  by (cases rAuth) (simp_all add: deleteUser_def statement_defs)

text \<open>
  Claim C6. The account is removed from the cache and success is reported also when the
  identity deletion fails, and the failure is logged only. The handler does the former
  but not always the latter. Every other request of the component reports a failure in
  the value it resolves to, and the handlers read it from there; \<^verbatim>\<open>deleteUser\<close> drops the
  value that the identity request resolves to, so a failure reported in it never reaches
  the \<^verbatim>\<open>catch\<close> block that logs. Here the account \<open>u1\<close> is deleted, the profile delete
  succeeds and the identity service answers \<open>User not allowed\<close>: the account is gone, the
  success toast is shown, and the console holds the two informational entries and no
  word of the failure.
\<close>

theorem reported_identity_failure_is_not_logged:
  "deleteUser True (Ok ()) (Err ''User not allowed'') ''u1'' (initialState\<lparr>users := [ada, bob]\<rparr>)
     = initialState
         \<lparr>users := [bob],
          toasts := [ToastSuccess ''User deleted successfully''],
          console := [ConsoleLog ''Deleting user:'', ConsoleLog ''User deleted successfully''],
          calls := [ProfilesDelete ''u1'', AuthAdminDeleteUser ''u1'']\<rparr>
   \<and> console (deleteUser True (Ok ()) (Err ''User not allowed'') ''u1''
                (initialState\<lparr>users := [ada, bob]\<rparr>))
     = [ConsoleLog ''Deleting user:'', ConsoleLog ''User deleted successfully'']"
  by (simp add: deleteUser_def statement_defs example_defs)

subsection \<open>The session check\<close>

lemma fetchData_frame:
  "adminSession (fetchData uf ru rb s) = adminSession s
   \<and> localStorage (fetchData uf ru rb s) = localStorage s
   \<and> navigated (fetchData uf ru rb s) = navigated s
   \<and> loading (fetchData uf ru rb s) = False"
  by (cases ru; cases rb; cases uf) (simp_all add: fetch_defs statement_defs)

text \<open>Rounding to a double, evaluated on numerals.\<close>

lemma floor_numeral_divide: "\<lfloor>(numeral a :: rat) / numeral b\<rfloor> = numeral a div numeral b"
  using floor_divide_of_int_eq [of "numeral a" "numeral b", where ?'a = rat] by simp

lemma ceiling_numeral_divide:
  "\<lceil>(numeral a :: rat) / numeral b\<rceil> = - (- numeral a div numeral b)"
  using ceiling_divide_eq_div [of "numeral a" "numeral b", where ?'a = rat] by simp

lemmas number_defs =
  toDouble_def signedDouble_def roundMagnitude_def quantize_def roundHalfEven_def pow2_def
  binaryExponent_def bitLength.simps scientific_def subtractFrom_def exceeds_def
  floor_numeral_divide ceiling_numeral_divide

text \<open>A positive \<open>n\<close> has \<open>bitLength n\<close> binary digits.\<close>

lemma bitLength_bounds: "0 < n \<Longrightarrow> 2 ^ (bitLength n - 1) \<le> n \<and> n < 2 ^ bitLength n"
proof (induction n rule: bitLength.induct)
  case (1 n)
  show ?case
  proof (cases "n div 2 = 0")
    case True
    with 1(2) have "n = 1" by (simp add: div_eq_0_iff)
    then show ?thesis by (simp add: bitLength.simps)
  next
    case False
    then have pos: "0 < n div 2" by simp
    from 1(1) [OF _ pos] 1(2)
    have ih: "2 ^ (bitLength (n div 2) - 1) \<le> n div 2" "n div 2 < 2 ^ bitLength (n div 2)"
      by simp_all
    have bl: "bitLength n = Suc (bitLength (n div 2))"
      using 1(2) by (subst bitLength.simps) simp
    have "0 < bitLength (n div 2)"
      using pos by (subst bitLength.simps) simp
    then obtain j where j: "bitLength (n div 2) = Suc j" by (cases "bitLength (n div 2)") simp_all
    from ih j have "2 * 2 ^ j \<le> n" "n < 2 * 2 ^ Suc j" by simp_all
    then show ?thesis by (simp add: bl j)
  qed
qed

lemma roundHalfEven_of_int: "roundHalfEven (of_int i) = i"
  by (simp add: roundHalfEven_def)

lemma roundHalfEven_ge_floor: "\<lfloor>r\<rfloor> \<le> roundHalfEven r"
  by (simp add: roundHalfEven_def)

text \<open>A double holds every integer of magnitude at most \<open>2^53\<close> exactly.\<close>

lemma toDouble_int_exact:
  assumes "\<bar>t\<bar> \<le> 2 ^ 53"
  shows "toDouble (of_int t) = Finite (of_int t)"
proof (cases "t = 0")
  case True
  then show ?thesis by (simp add: toDouble_def)
next
  case False
  define n where "n = nat \<bar>t\<bar>"
  define k where "k = bitLength n - 1"
  have npos: "0 < n" using False by (simp add: n_def)
  have nle: "n \<le> 2 ^ 53" using assms by (simp add: n_def nat_le_iff)
  from bitLength_bounds [OF npos] have lo: "2 ^ k \<le> n" and blpos: "0 < bitLength n"
    by (auto simp add: k_def intro: Nat.gr0I)
  have k53: "k \<le> 53"
  proof (rule ccontr)
    assume "\<not> k \<le> 53"
    then have "(2::nat) ^ 54 \<le> 2 ^ k" by (intro power_increasing) simp_all
    with lo nle show False by simp
  qed
  have abs_t: "\<bar>(of_int t :: rat)\<bar> = of_nat n"
    by (simp add: n_def)
  have one_le: "(1::rat) \<le> of_nat n" using npos by simp
  have be: "binaryExponent (of_nat n) = int k"
    using one_le blpos by (simp add: binaryExponent_def k_def)
  have q: "roundMagnitude (of_nat n) = of_nat n"
  proof (cases "k \<le> 52")
    case True
    then have "nat (52 - int k) = 52 - k" by arith
    with True have p: "pow2 (int k - 52) = 1 / 2 ^ (52 - k)"
      by (simp add: pow2_def)
    have E: "max (int k - 52) (- 1074) = int k - 52" by simp
    have "of_nat n / (1 / 2 ^ (52 - k)) = (of_int (int (n * 2 ^ (52 - k))) :: rat)"
      by simp
    then have "roundHalfEven (of_nat n / (1 / 2 ^ (52 - k))) = int (n * 2 ^ (52 - k))"
      by (simp only: roundHalfEven_of_int)
    then show ?thesis
      unfolding roundMagnitude_def quantize_def be E p by simp
  next
    case False
    with k53 have k: "k = 53" by simp
    with lo nle have n: "n = 2 ^ 53" by simp
    have "(of_nat n :: rat) / pow2 1 = of_int (2 ^ 52)" by (simp add: n pow2_def)
    then have "roundHalfEven (of_nat n / pow2 1) = 2 ^ 52" by (simp only: roundHalfEven_of_int)
    then show ?thesis
      by (simp add: roundMagnitude_def quantize_def be k) (simp add: pow2_def n)
  qed
  have "(if t < 0 then - of_nat n else of_nat n) = (of_int t :: rat)"
    by (simp add: n_def)
  then show ?thesis
    using False nle by (simp add: toDouble_def abs_t q signedDouble_def)
qed

text \<open>A larger integer rounds to a magnitude of at least \<open>2^53\<close>.\<close>

lemma roundMagnitude_large:
  assumes "2 ^ 53 \<le> n"
  shows "(2::rat) ^ 53 \<le> roundMagnitude (of_nat n)"
proof -
  define k where "k = bitLength n - 1"
  have npos: "0 < n" using assms by (simp add: Suc_le_eq less_le_trans [of 0 "2 ^ 53"])
  from bitLength_bounds [OF npos] have lo: "2 ^ k \<le> n" and hi: "n < 2 ^ bitLength n"
    and blpos: "0 < bitLength n"
    by (auto simp add: k_def intro: Nat.gr0I)
  have bl: "bitLength n = Suc k" using blpos by (simp add: k_def)
  have k53: "53 \<le> k"
  proof (rule ccontr)
    assume "\<not> 53 \<le> k"
    then have "(2::nat) ^ Suc k \<le> 2 ^ 53" by (intro power_increasing) simp_all
    with hi assms show False by (simp add: bl)
  qed
  have one_le: "(1::rat) \<le> of_nat n" using npos by simp
  have be: "binaryExponent (of_nat n) = int k"
    using one_le blpos by (simp add: binaryExponent_def k_def)
  have E: "max (int k - 52) (- 1074) = int (k - 52)" using k53 by simp
  have p: "pow2 (int (k - 52)) = 2 ^ (k - 52)" by (simp add: pow2_def)
  have "(2::rat) ^ 52 * 2 ^ (k - 52) = 2 ^ (52 + (k - 52))"
    by (simp only: power_add)
  also have "52 + (k - 52) = k" using k53 by simp
  finally have "(2::rat) ^ 52 * 2 ^ (k - 52) = 2 ^ k" .
  moreover have "(2::rat) ^ k \<le> of_nat n"
  proof -
    have "(of_nat (2 ^ k) :: rat) \<le> of_nat n" using lo by (simp only: of_nat_le_iff)
    then show ?thesis by simp
  qed
  ultimately have "(2::rat) ^ 52 \<le> of_nat n / 2 ^ (k - 52)"
    by (simp add: pos_le_divide_eq)
  then have "(2::int) ^ 52 \<le> \<lfloor>(of_nat n :: rat) / 2 ^ (k - 52)\<rfloor>"
    by (simp add: le_floor_iff)
  with roundHalfEven_ge_floor [of "of_nat n / 2 ^ (k - 52)"]
  have "(2::int) ^ 52 \<le> roundHalfEven (of_nat n / 2 ^ (k - 52))" by linarith
  then have "(of_int (2 ^ 52) :: rat) \<le> of_int (roundHalfEven (of_nat n / 2 ^ (k - 52)))"
    by (simp only: of_int_le_iff)
  then have r: "(2::rat) ^ 52 \<le> of_int (roundHalfEven (of_nat n / 2 ^ (k - 52)))" by simp
  have "(2::rat) ^ 53 = 2 ^ 52 * 2 ^ 1" by simp
  also have "\<dots> \<le> of_int (roundHalfEven (of_nat n / 2 ^ (k - 52))) * 2 ^ (k - 52)"
  proof (rule mult_mono)
    show "(2::rat) ^ 1 \<le> 2 ^ (k - 52)" using k53 by (intro power_increasing) simp_all
  qed (use r in simp_all)
  finally show ?thesis
    by (simp add: roundMagnitude_def quantize_def be E p)
qed

text \<open>
  So the double of an integer compares with a limit below \<open>2^53\<close> as the integer does.
\<close>

lemma exceeds_toDouble_int:
  assumes "0 \<le> limit" and "limit < 2 ^ 53"
  shows "exceeds (toDouble (of_int D)) limit \<longleftrightarrow> limit < D"
proof (cases "\<bar>D\<bar> \<le> 2 ^ 53")
  case True
  then show ?thesis by (simp add: toDouble_int_exact exceeds_def)
next
  case False
  define n where "n = nat \<bar>D\<bar>"
  have n: "2 ^ 53 \<le> n" using False by (simp add: n_def le_nat_iff)
  have abs_D: "\<bar>(of_int D :: rat)\<bar> = of_nat n" by (simp add: n_def)
  have D0: "D \<noteq> 0" using False by auto
  have lim: "(of_int limit :: rat) < 2 ^ 53"
  proof -
    have "(of_int limit :: rat) < of_int (2 ^ 53)" using assms(2) by (simp only: of_int_less_iff)
    then show ?thesis by simp
  qed
  have lim0: "(0::rat) \<le> of_int limit" using assms(1) by simp
  note big = roundMagnitude_large [OF n]
  show ?thesis
  proof (cases "D < 0")
    case True
    then have "\<not> limit < D" using assms(1) by simp
    moreover have "\<not> exceeds (toDouble (of_int D)) limit"
      using True D0 big lim0
      by (simp add: toDouble_def abs_D signedDouble_def exceeds_def del: of_nat_numeral)
    ultimately show ?thesis by simp
  next
    case False
    with \<open>\<not> \<bar>D\<bar> \<le> 2 ^ 53\<close> have "limit < D" using assms(2) by simp
    moreover have "exceeds (toDouble (of_int D)) limit"
      using False D0 big lim
      by (simp add: toDouble_def abs_D signedDouble_def exceeds_def del: of_nat_numeral)
    ultimately show ?thesis by simp
  qed
qed

lemma elapsed_whole_milliseconds:
  assumes "\<bar>t\<bar> \<le> 2 ^ 53"
  shows "exceeds (subtractFrom now (toDouble (of_int t))) (24 * 60 * 60 * 1000)
           \<longleftrightarrow> now - t > 24 * 60 * 60 * 1000"
  using assms exceeds_toDouble_int [of "24 * 60 * 60 * 1000" "now - t"]
  by (simp add: toDouble_int_exact subtractFrom_def)

lemma checkAdminSession_number:
  assumes "localStorage s = Some session" and "session \<noteq> []"
    and "JSON_parse session = Inr parsedSession"
    and "loginTime parsedSession = Inr (Some (JNumber m e))"
  shows "checkAdminSession now uf ru rb s =
           (if exceeds (subtractFrom now (toDouble (scientific m e))) (24 * 60 * 60 * 1000)
            then s\<lparr>localStorage := None, navigated := navigated s @ [''/admin'']\<rparr>
            else fetchData uf ru rb (s\<lparr>adminSession := Some parsedSession\<rparr>))"
  using assms by (simp add: checkAdminSession_def toNumber_def statement_defs)

lemma storedSession_parsed:
  "JSON_parse storedSession =
     Inr (JObject [(map of_char ''id'', JString (map of_char ''a1'')),
                   (map of_char ''email'', JString (map of_char ''ada@example.com'')),
                   (map of_char ''full_name'', JString (map of_char ''Ada'')),
                   (map of_char ''loginTime'', JNumber 1700000000000 0)])"
  by (simp add: storedSession_def json_defs)

lemma fractionalSession_parsed:
  "JSON_parse fractionalSession =
     Inr (JObject [(map of_char ''loginTime'', JNumber 16999135999995 (- 1))])"
  by (simp add: fractionalSession_def json_defs)

lemma fractionalSession_elapsed:
  "exceeds (subtractFrom 1700000000000 (toDouble (scientific 16999135999995 (- 1))))
     (24 * 60 * 60 * 1000)"
  by (simp add: number_defs)

text \<open>
  Claim C2, as amended. Let the stored item parse to a value whose \<^verbatim>\<open>loginTime\<close> is a
  number. The check removes the item and navigates to \<open>/admin\<close> when
  \<^verbatim>\<open>Date.now() - loginTime > 24 * 60 * 60 * 1000\<close> holds in double arithmetic; otherwise it
  admits the session: the parsed value becomes \<^verbatim>\<open>adminSession\<close>, the data are fetched, the
  item stays in storage and nothing is navigated to. When \<^verbatim>\<open>loginTime\<close> is a whole number
  \<open>t\<close> of milliseconds of magnitude at most \<open>2^53\<close> (so is every reading of \<^verbatim>\<open>Date.now()\<close>),
  the session is admitted exactly when \<open>now - t\<close> is at most \<open>24 * 60 * 60 * 1000\<close>. When no
  item is stored the check navigates to \<open>/admin\<close> and changes nothing else.
\<close>

theorem numeric_login_time_admits_within_24_hours:
  "(localStorage s = Some session \<and> session \<noteq> [] \<and> JSON_parse session = Inr parsedSession
      \<and> loginTime parsedSession = Inr (Some (JNumber m e))
    \<longrightarrow> checkAdminSession now uf ru rb s
          = (if exceeds (subtractFrom now (toDouble (scientific m e))) (24 * 60 * 60 * 1000)
             then s\<lparr>localStorage := None, navigated := navigated s @ [''/admin'']\<rparr>
             else fetchData uf ru rb (s\<lparr>adminSession := Some parsedSession\<rparr>))
        \<and> (scientific m e = of_int t \<and> \<bar>t\<bar> \<le> 2 ^ 53 \<longrightarrow>
             ((adminSession (checkAdminSession now uf ru rb s) = Some parsedSession
                 \<and> localStorage (checkAdminSession now uf ru rb s) = Some session
                 \<and> navigated (checkAdminSession now uf ru rb s) = navigated s)
               \<longleftrightarrow> now - t \<le> 24 * 60 * 60 * 1000)
             \<and> (now - t \<le> 24 * 60 * 60 * 1000 \<longrightarrow>
                  checkAdminSession now uf ru rb s
                    = fetchData uf ru rb (s\<lparr>adminSession := Some parsedSession\<rparr>))
             \<and> (now - t > 24 * 60 * 60 * 1000 \<longrightarrow>
                  checkAdminSession now uf ru rb s
                    = s\<lparr>localStorage := None, navigated := navigated s @ [''/admin'']\<rparr>)))
   \<and> (localStorage s = None \<longrightarrow>
         checkAdminSession now uf ru rb s = s\<lparr>navigated := navigated s @ [''/admin'']\<rparr>)"
proof (intro conjI impI)
  assume a: "localStorage s = Some session \<and> session \<noteq> [] \<and> JSON_parse session = Inr parsedSession
      \<and> loginTime parsedSession = Inr (Some (JNumber m e))"
  then show c: "checkAdminSession now uf ru rb s
          = (if exceeds (subtractFrom now (toDouble (scientific m e))) (24 * 60 * 60 * 1000)
             then s\<lparr>localStorage := None, navigated := navigated s @ [''/admin'']\<rparr>
             else fetchData uf ru rb (s\<lparr>adminSession := Some parsedSession\<rparr>))"
    using checkAdminSession_number by blast
  assume b: "scientific m e = of_int t \<and> \<bar>t\<bar> \<le> 2 ^ 53"
  then have x: "exceeds (subtractFrom now (toDouble (scientific m e))) (24 * 60 * 60 * 1000)
           \<longleftrightarrow> now - t > 24 * 60 * 60 * 1000"
    using elapsed_whole_milliseconds [of t now] by simp
  have admitted: "checkAdminSession now uf ru rb s
        = fetchData uf ru rb (s\<lparr>adminSession := Some parsedSession\<rparr>)"
    if "now - t \<le> 24 * 60 * 60 * 1000"
    using c x that by simp
  have denied: "checkAdminSession now uf ru rb s
        = s\<lparr>localStorage := None, navigated := navigated s @ [''/admin'']\<rparr>"
    if "now - t > 24 * 60 * 60 * 1000"
    using c x that by simp
  show "(adminSession (checkAdminSession now uf ru rb s) = Some parsedSession
           \<and> localStorage (checkAdminSession now uf ru rb s) = Some session
           \<and> navigated (checkAdminSession now uf ru rb s) = navigated s)
         \<longleftrightarrow> now - t \<le> 24 * 60 * 60 * 1000"
  proof (cases "now - t \<le> 24 * 60 * 60 * 1000")
    case True
    then show ?thesis
      using admitted a fetchData_frame [of uf ru rb "s\<lparr>adminSession := Some parsedSession\<rparr>"]
      by simp
  next
    case False
    then show ?thesis
      using denied by simp
  qed
  show "checkAdminSession now uf ru rb s
        = fetchData uf ru rb (s\<lparr>adminSession := Some parsedSession\<rparr>)"
    if "now - t \<le> 24 * 60 * 60 * 1000"
    using admitted that .
  show "checkAdminSession now uf ru rb s
        = s\<lparr>localStorage := None, navigated := navigated s @ [''/admin'']\<rparr>"
    if "24 * 60 * 60 * 1000 < now - t"
    using denied that .
next
  assume "localStorage s = None"
  then show "checkAdminSession now uf ru rb s = s\<lparr>navigated := navigated s @ [''/admin'']\<rparr>"
    by (simp add: checkAdminSession_def statement_defs)
qed

text \<open>
  The statement above on sample data: a session stored at \<open>1700000000000\<close> is admitted
  twenty-four hours later and removed one millisecond after that; a \<^verbatim>\<open>loginTime\<close> with a
  fraction, half a millisecond more than twenty-four hours old, is removed; without an
  item the check navigates to \<open>/admin\<close>.
\<close>

theorem numeric_login_time_admits_within_24_hours_witness:
  "adminSession
     (checkAdminSession (1700000000000 + 24 * 60 * 60 * 1000) True (Ok None) (Ok None)
        (initialState\<lparr>localStorage := Some storedSession\<rparr>))
     = Some (JObject [(map of_char ''id'', JString (map of_char ''a1'')),
                     (map of_char ''email'', JString (map of_char ''ada@example.com'')),
                     (map of_char ''full_name'', JString (map of_char ''Ada'')),
                     (map of_char ''loginTime'', JNumber 1700000000000 0)])
   \<and> checkAdminSession (1700000000000 + 24 * 60 * 60 * 1000 + 1) True (Ok None) (Ok None)
        (initialState\<lparr>localStorage := Some storedSession\<rparr>)
     = initialState\<lparr>localStorage := None, navigated := [''/admin'']\<rparr>
   \<and> checkAdminSession 1700000000000 True (Ok None) (Ok None)
        (initialState\<lparr>localStorage := Some fractionalSession\<rparr>)
     = initialState\<lparr>localStorage := None, navigated := [''/admin'']\<rparr>
   \<and> checkAdminSession 1700000000000 True (Ok None) (Ok None) initialState
     = initialState\<lparr>navigated := [''/admin'']\<rparr>"
proof -
  let ?p = "JObject [(map of_char ''id'', JString (map of_char ''a1'')),
                     (map of_char ''email'', JString (map of_char ''ada@example.com'')),
                     (map of_char ''full_name'', JString (map of_char ''Ada'')),
                     (map of_char ''loginTime'', JNumber 1700000000000 0)]"
  let ?f = "JObject [(map of_char ''loginTime'', JNumber 16999135999995 (- 1))]"
  let ?s = "initialState\<lparr>localStorage := Some storedSession\<rparr>"
  let ?sf = "initialState\<lparr>localStorage := Some fractionalSession\<rparr>"
  note claim = numeric_login_time_admits_within_24_hours
    [where uf = True and ru = "Ok None" and rb = "Ok None"]
  have stored: "localStorage ?s = Some storedSession \<and> storedSession \<noteq> []
      \<and> JSON_parse storedSession = Inr ?p
      \<and> loginTime ?p = Inr (Some (JNumber 1700000000000 0))"
    using storedSession_parsed by (simp add: loginTime_def) (simp add: storedSession_def)
  have whole: "scientific 1700000000000 0 = of_int 1700000000000
      \<and> \<bar>1700000000000 :: int\<bar> \<le> 2 ^ 53"
    by (simp add: scientific_def)
  note at = claim [where s = ?s and session = storedSession and parsedSession = ?p
      and m = 1700000000000 and e = 0 and t = 1700000000000]
  have admitted: "checkAdminSession (1700000000000 + 24 * 60 * 60 * 1000) True (Ok None) (Ok None) ?s
      = fetchData True (Ok None) (Ok None) (?s\<lparr>adminSession := Some ?p\<rparr>)"
    using at [where now = "1700000000000 + 24 * 60 * 60 * 1000", THEN conjunct1, THEN mp,
        OF stored, THEN conjunct2, THEN mp, OF whole, THEN conjunct2, THEN conjunct1]
    by simp
  have 1: "adminSession
     (checkAdminSession (1700000000000 + 24 * 60 * 60 * 1000) True (Ok None) (Ok None) ?s)
     = Some ?p"
    unfolding admitted by (simp add: fetchData_frame)
  have denied: "checkAdminSession (1700000000000 + 24 * 60 * 60 * 1000 + 1) True (Ok None) (Ok None) ?s
      = ?s\<lparr>localStorage := None, navigated := navigated ?s @ [''/admin'']\<rparr>"
    using at [where now = "1700000000000 + 24 * 60 * 60 * 1000 + 1", THEN conjunct1, THEN mp,
        OF stored, THEN conjunct2, THEN mp, OF whole, THEN conjunct2, THEN conjunct2]
    by simp
  have 2: "checkAdminSession (1700000000000 + 24 * 60 * 60 * 1000 + 1) True (Ok None) (Ok None) ?s
     = initialState\<lparr>localStorage := None, navigated := [''/admin'']\<rparr>"
    unfolding denied by (simp add: initialState_def)
  have fractional: "localStorage ?sf = Some fractionalSession \<and> fractionalSession \<noteq> []
      \<and> JSON_parse fractionalSession = Inr ?f
      \<and> loginTime ?f = Inr (Some (JNumber 16999135999995 (- 1)))"
    using fractionalSession_parsed by (simp add: loginTime_def) (simp add: fractionalSession_def)
  have removed: "checkAdminSession 1700000000000 True (Ok None) (Ok None) ?sf
      = ?sf\<lparr>localStorage := None, navigated := navigated ?sf @ [''/admin'']\<rparr>"
    using claim [where s = ?sf and session = fractionalSession and parsedSession = ?f
        and m = 16999135999995 and e = "- 1" and now = 1700000000000,
        THEN conjunct1, THEN mp, OF fractional, THEN conjunct1]
      fractionalSession_elapsed
    by simp
  have 3: "checkAdminSession 1700000000000 True (Ok None) (Ok None) ?sf
     = initialState\<lparr>localStorage := None, navigated := [''/admin'']\<rparr>"
    unfolding removed by (simp add: initialState_def)
  have 4: "checkAdminSession 1700000000000 True (Ok None) (Ok None) initialState
     = initialState\<lparr>navigated := [''/admin'']\<rparr>"
    using claim [where s = initialState and now = 1700000000000, THEN conjunct2]
    by (simp add: initialState_def)
  show ?thesis
    using 1 2 3 4 by blast
qed

text \<open>
  The statement of claim C2 for every stored session token does not hold for a token
  without a numeric \<^verbatim>\<open>loginTime\<close>. The stored item \<^verbatim>\<open>{}\<close> parses to an object without that
  member; \<^verbatim>\<open>Date.now() - undefined\<close> is \<^verbatim>\<open>NaN\<close>, which is neither at most twenty-four hours
  nor more, and \<^verbatim>\<open>NaN > 24 * 60 * 60 * 1000\<close> is false. So the session is admitted at every
  reading of the clock, here in 2023 and in 2100, and the item is never removed.
\<close>

theorem session_without_login_time_is_admitted:
  "JSON_parse ''{}'' = Inr (JObject [])
   \<and> loginTime (JObject []) = Inr None
   \<and> toNumber None = Inr NaN
   \<and> subtractFrom 1700000000000 NaN = NaN
   \<and> \<not> exceeds NaN (24 * 60 * 60 * 1000)
   \<and> adminSession (checkAdminSession 1700000000000 True (Ok None) (Ok None)
        (initialState\<lparr>localStorage := Some ''{}''\<rparr>)) = Some (JObject [])
   \<and> localStorage (checkAdminSession 1700000000000 True (Ok None) (Ok None)
        (initialState\<lparr>localStorage := Some ''{}''\<rparr>)) = Some ''{}''
   \<and> navigated (checkAdminSession 1700000000000 True (Ok None) (Ok None)
        (initialState\<lparr>localStorage := Some ''{}''\<rparr>)) = []
   \<and> adminSession (checkAdminSession 4102444800000 True (Ok None) (Ok None)
        (initialState\<lparr>localStorage := Some ''{}''\<rparr>)) = Some (JObject [])
   \<and> localStorage (checkAdminSession 4102444800000 True (Ok None) (Ok None)
        (initialState\<lparr>localStorage := Some ''{}''\<rparr>)) = Some ''{}''
   \<and> navigated (checkAdminSession 4102444800000 True (Ok None) (Ok None)
        (initialState\<lparr>localStorage := Some ''{}''\<rparr>)) = []"
proof -
  have p: "JSON_parse ''{}'' = Inr (JObject [])"
    by (simp add: json_defs)
  have c: "checkAdminSession now True (Ok None) (Ok None)
             (initialState\<lparr>localStorage := Some ''{}''\<rparr>)
           = fetchData True (Ok None) (Ok None)
               (initialState\<lparr>localStorage := Some ''{}'', adminSession := Some (JObject [])\<rparr>)"
    for now
    by (simp add: checkAdminSession_def p loginTime_def toNumber_def subtractFrom_def
        exceeds_def statement_defs)
  have r: "adminSession (checkAdminSession now True (Ok None) (Ok None)
               (initialState\<lparr>localStorage := Some ''{}''\<rparr>)) = Some (JObject [])
           \<and> localStorage (checkAdminSession now True (Ok None) (Ok None)
               (initialState\<lparr>localStorage := Some ''{}''\<rparr>)) = Some ''{}''
           \<and> navigated (checkAdminSession now True (Ok None) (Ok None)
               (initialState\<lparr>localStorage := Some ''{}''\<rparr>)) = []"
    for now
    unfolding c by (simp add: fetchData_frame initialState_def)
  show ?thesis
    using p r [of 1700000000000] r [of 4102444800000]
    by (simp add: loginTime_def toNumber_def subtractFrom_def exceeds_def)
qed

text \<open>
  Claim C10, as amended. A stored item that is not empty and that \<^verbatim>\<open>JSON.parse\<close> rejects
  is removed from storage, the error is logged, and the check navigates to \<open>/admin\<close>; no
  session is admitted and nothing is fetched. An empty stored item is treated as no item:
  the check navigates to \<open>/admin\<close> and leaves the item in storage.
\<close>

theorem unparseable_session_is_removed:
  "(localStorage s = Some session \<and> session \<noteq> [] \<and> JSON_parse session = Inl err \<longrightarrow>
      checkAdminSession now uf ru rb s
        = s\<lparr>console := console s @ [ConsoleError ''Invalid session:''],
             localStorage := None,
             navigated := navigated s @ [''/admin'']\<rparr>)
   \<and> (localStorage s = Some [] \<longrightarrow>
      checkAdminSession now uf ru rb s = s\<lparr>navigated := navigated s @ [''/admin'']\<rparr>)"
  by (simp add: checkAdminSession_def invalidSession_def statement_defs)

text \<open>The statement above on sample data.\<close>

theorem unparseable_session_is_removed_witness:
  "JSON_parse ''not json'' = Inl SyntaxError
   \<and> checkAdminSession 1700000000000 True (Ok None) (Ok None)
        (initialState\<lparr>localStorage := Some ''not json''\<rparr>)
     = initialState\<lparr>console := [ConsoleError ''Invalid session:''],
                     localStorage := None, navigated := [''/admin'']\<rparr>
   \<and> checkAdminSession 1700000000000 True (Ok None) (Ok None)
        (initialState\<lparr>localStorage := Some []\<rparr>)
     = initialState\<lparr>localStorage := Some [], navigated := [''/admin'']\<rparr>"
proof -
  have p: "JSON_parse ''not json'' = Inl SyntaxError"
    by (simp add: json_defs)
  have 1: "checkAdminSession 1700000000000 True (Ok None) (Ok None)
        (initialState\<lparr>localStorage := Some ''not json''\<rparr>)
     = initialState\<lparr>console := [ConsoleError ''Invalid session:''],
                     localStorage := None, navigated := [''/admin'']\<rparr>"
    using unparseable_session_is_removed
      [where s = "initialState\<lparr>localStorage := Some ''not json''\<rparr>" and session = "''not json''"
         and err = SyntaxError and now = 1700000000000 and uf = True and ru = "Ok None"
         and rb = "Ok None"] p
    by (simp add: initialState_def)
  have 2: "checkAdminSession 1700000000000 True (Ok None) (Ok None)
        (initialState\<lparr>localStorage := Some []\<rparr>)
     = initialState\<lparr>localStorage := Some [], navigated := [''/admin'']\<rparr>"
    using unparseable_session_is_removed
      [where s = "initialState\<lparr>localStorage := Some []\<rparr>" and now = 1700000000000 and uf = True
         and ru = "Ok None" and rb = "Ok None"]
    by (simp add: initialState_def)
  show ?thesis
    using p 1 2 by blast
qed

text \<open>
  The statement of claim C10 that every stored item that fails to parse is deleted does
  not hold for the empty string: it is no JSON text, and \<^verbatim>\<open>!session\<close> sends the check to
  \<open>/admin\<close> before the item is parsed or removed.
\<close>

theorem empty_stored_session_is_not_removed:
  "JSON_parse [] = Inl SyntaxError
   \<and> localStorage
       (checkAdminSession 1700000000000 True (Ok None) (Ok None)
          (initialState\<lparr>localStorage := Some []\<rparr>))
     = Some []"
  by (simp add: json_defs checkAdminSession_def statement_defs initialState_def)

end
